theory Spec2Isabelle
  imports Main "HOL-Library.Word" "HOL-Library.Sublist"
begin

unbundle bit_operations_syntax

section \<open>Python strings and integers\<close>

text \<open>
  Strings are byte strings. An exception that the source lets escape is a value of
  \<open>py_exn\<close>; a function that may raise returns \<open>py_exn + 'a\<close> with \<open>Inl\<close> the exception.
  The parsers of the standard library raise only \<open>ValueError\<close> (or one of its subclasses
  \<open>AddressValueError\<close>, \<open>NetmaskValueError\<close>); they return an option, \<open>None\<close> standing for
  that exception.
\<close>

datatype py_exn =
    ValueError | KeyError | IndexError | AttributeError | TypeError | OverflowError
  | IPDefinedError

definition NL :: char where
  "NL = CHR 0x0A"

text \<open>\<open>s.split(sep)\<close> for a one-character separator: never the empty list.\<close>

fun split :: "char \<Rightarrow> string \<Rightarrow> string list" where
  "split sep [] = [[]]"
| "split sep (c # cs) =
     (let r = split sep cs in if c = sep then [] # r else (c # hd r) # tl r)"

text \<open>\<open>s.replace(old, new)\<close> for a one-character \<open>old\<close>.\<close>

definition replace :: "char \<Rightarrow> string \<Rightarrow> string \<Rightarrow> string" where
  "replace old new s = concat (map (\<lambda>c. if c = old then new else [c]) s)"

text \<open>\<open>sep.join(xs)\<close>.\<close>

fun join :: "string \<Rightarrow> string list \<Rightarrow> string" where
  "join sep [] = []"
| "join sep [x] = x"
| "join sep (x # y # xs) = x @ sep @ join sep (y # xs)"

text \<open>\<open>str(x)\<close> for a value that is a string or \<open>None\<close>.\<close>

definition str :: "string option \<Rightarrow> string" where
  "str x = (case x of None \<Rightarrow> ''None'' | Some s \<Rightarrow> s)"

definition isdigit :: "string \<Rightarrow> bool" where
  \<comment> \<open>\<open>s.isascii() and s.isdigit()\<close>\<close>
  "isdigit s = (s \<noteq> [] \<and> list_all (\<lambda>c. c \<in> set ''0123456789'') s)"

definition digit_val :: "char \<Rightarrow> nat" where
  "digit_val c = of_char c - 48"

definition decimal :: "string \<Rightarrow> nat" where
  "decimal s = foldl (\<lambda>n c. 10 * n + digit_val c) 0 s"

definition isspace :: "char \<Rightarrow> bool" where
  "isspace c = (c \<in> {CHR '' '', CHR 0x09, CHR 0x0A, CHR 0x0B, CHR 0x0C, CHR 0x0D})"

definition strip :: "string \<Rightarrow> string" where
  "strip s = rev (dropWhile isspace (rev (dropWhile isspace s)))"

text \<open>
  \<open>int(s)\<close> in base 10 on an ASCII string: surrounding whitespace is dropped, one sign is
  allowed, and the digits may be grouped by single underscores; more than 4300 digits are
  refused (\<open>sys.int_max_str_digits\<close>). Anything else raises \<open>ValueError\<close>, here \<open>None\<close>.
\<close>

definition int_max_str_digits :: nat where
  "int_max_str_digits = 4300"

definition int_digits :: "string \<Rightarrow> nat option" where
  "int_digits s =
     (let groups = split (CHR ''_'') s
      in if list_all isdigit groups
         then if length (concat groups) > int_max_str_digits then None
              else Some (decimal (concat groups))
         else None)"

definition ascii_int :: "string \<Rightarrow> int option" where
  "ascii_int s =
     (case strip s of
        [] \<Rightarrow> None
      | c # cs \<Rightarrow>
          if c = CHR ''-'' then map_option (\<lambda>n. - int n) (int_digits cs)
          else if c = CHR ''+'' then map_option int (int_digits cs)
          else map_option int (int_digits (c # cs)))"

definition isascii :: "string \<Rightarrow> bool" where
  "isascii s = list_all (\<lambda>c. (of_char c :: nat) < 128) s"

section \<open>The standard library's \<open>ipaddress\<close> module (CPython 3.11)\<close>

text \<open>
  An address is its version and its integer (\<open>_ip\<close>); an IPv6 address also carries its scope
  id. A network is its network address and prefix length, the netmask being a function of
  the prefix length. Equality of these values is the \<open>__eq__\<close> of the library's objects, which
  is what a dictionary keyed by networks uses.
\<close>

datatype ip_address = IPv4Address "32 word" | IPv6Address "128 word" "string option"

datatype ip_network = IPv4Network "32 word" nat | IPv6Network "128 word" nat

definition parse_octet :: "string \<Rightarrow> nat option" where
  "parse_octet octet_str =
     (if octet_str = [] then None
      else if \<not> isdigit octet_str then None
      else if length octet_str > 3 then None
      else if octet_str \<noteq> ''0'' \<and> hd octet_str = CHR ''0'' then None
      else let octet_int = decimal octet_str
           in if octet_int > 255 then None else Some octet_int)"

definition ip_int_from_string :: "string \<Rightarrow> 32 word option" where
  "ip_int_from_string ip_str =
     (if ip_str = [] then None
      else case map parse_octet (split (CHR ''.'') ip_str) of
             [Some a, Some b, Some c, Some d] \<Rightarrow>
               Some (word_of_nat (((a * 256 + b) * 256 + c) * 256 + d))
           | _ \<Rightarrow> None)"

definition IPv4Address_of_string :: "string \<Rightarrow> 32 word option" where
  "IPv4Address_of_string addr_str =
     (if CHR ''/'' \<in> set addr_str then None else ip_int_from_string addr_str)"

definition ip_int_from_prefix :: "nat \<Rightarrow> 'a::len word" where
  \<comment> \<open>\<open>_ALL_ONES ^ (_ALL_ONES >> prefixlen)\<close>\<close>
  "ip_int_from_prefix prefixlen = (- 1) XOR drop_bit prefixlen (- 1)"

definition count_righthand_zero_bits :: "32 word \<Rightarrow> nat" where
  \<comment> \<open>the number of zero bits on the right-hand side, 32 for the number 0\<close>
  "count_righthand_zero_bits number = length (takeWhile Not (map (bit number) [0..<32]))"

definition prefix_from_ip_int :: "32 word \<Rightarrow> nat option" where
  "prefix_from_ip_int ip_int =
     (let trailing_zeroes = count_righthand_zero_bits ip_int;
          prefixlen = 32 - trailing_zeroes;
          leading_ones = drop_bit trailing_zeroes ip_int
      in if unat leading_ones \<noteq> 2 ^ prefixlen - 1 then None else Some prefixlen)"

definition prefix_from_prefix_string :: "nat \<Rightarrow> string \<Rightarrow> nat option" where
  "prefix_from_prefix_string max_prefixlen prefixlen_str =
     (if \<not> isdigit prefixlen_str then None
      else case int_digits prefixlen_str of
             None \<Rightarrow> None
           | Some prefixlen \<Rightarrow> if prefixlen \<le> max_prefixlen then Some prefixlen else None)"

definition prefix_from_ip_string :: "string \<Rightarrow> nat option" where
  "prefix_from_ip_string ip_str =
     (case ip_int_from_string ip_str of
        None \<Rightarrow> None
      | Some ip_int \<Rightarrow>
          (case prefix_from_ip_int ip_int of
             Some prefixlen \<Rightarrow> Some prefixlen
           | None \<Rightarrow> prefix_from_ip_int (ip_int XOR (- 1))))"

definition make_netmask :: "string \<Rightarrow> nat option" where
  "make_netmask arg =
     (case prefix_from_prefix_string 32 arg of
        Some prefixlen \<Rightarrow> Some prefixlen
      | None \<Rightarrow> prefix_from_ip_string arg)"

text \<open>
  The address and prefix length that \<open>IPv4Network(address)\<close> reads from a string, before
  the check of the host bits; \<open>None\<close> is \<open>AddressValueError\<close> or \<open>NetmaskValueError\<close>.
\<close>

definition IPv4Network_parse :: "string \<Rightarrow> (32 word \<times> nat) option" where
  "IPv4Network_parse address =
     (case split (CHR ''/'') address of
        [addr] \<Rightarrow> map_option (\<lambda>ip. (ip, 32)) (IPv4Address_of_string addr)
      | [addr, netmask] \<Rightarrow>
          (case IPv4Address_of_string addr of
             None \<Rightarrow> None
           | Some ip \<Rightarrow> map_option (\<lambda>prefixlen. (ip, prefixlen)) (make_netmask netmask))
      | _ \<Rightarrow> None)"

text \<open>
  The collaborators of the program that are not part of it: the IPv6 half of \<open>ipaddress\<close>,
  \<open>int\<close> on a string with characters beyond ASCII, the clock and the ISO format of
  \<open>datetime\<close>, the registry client of \<open>ipwhois\<close> and the reverse DNS query of \<open>socket\<close>. The
  registry and the clock answer by the number of the call, so that a retry may get another
  answer than the first attempt.

  The constructor \<open>ipwhois.IPWhois(address)\<close> raises \<open>IPDefinedError\<close> for an address that the
  library holds to be defined (\<open>ipwhois_is_defined\<close>). A query keeps to the contract the
  specification gives it: it returns a response with its \<open>nets\<close> list and \<open>asn_*\<close> members (a
  member may be \<open>None\<close>), or raises one of the four exceptions that \<open>single_lookup\<close> handles.
  Reverse DNS returns a host name or raises \<open>socket.herror\<close> (here \<open>None\<close>).

  A \<open>datetime\<close> is naive or aware of a time zone, and counts the microseconds of its wall
  clock since \<open>datetime.min\<close>. \<open>fromisoformat\<close> returns \<open>None\<close> for a string it rejects; the clock
  is naive.
\<close>

datatype datetime = Naive int | Aware int

record net_entry =
  nets_cidr :: "string option"
  nets_name :: "string option"
  nets_description :: "string option"
  nets_country :: "string option"

record whois_response =
  nets :: "net_entry list"
  asn_cidr :: "string option"
  asn_description :: "string option"
  asn_country_code :: "string option"
  asn_registry :: "string option"

datatype whois_result =
    Response whois_response
  | TimeoutError
  | HTTPLookupError
  | WhoisLookupError
  | ASNParseError

record env =
  ipv6_address :: "string \<Rightarrow> (128 word \<times> string option) option"
  ipv6_network :: "string \<Rightarrow> (128 word \<times> nat) option"
  ipv6_is_private :: "128 word \<Rightarrow> bool"
  ipv6_is_loopback :: "128 word \<Rightarrow> bool"
  ipv6_is_multicast :: "128 word \<Rightarrow> bool"
  ipv6_is_unspecified :: "128 word \<Rightarrow> bool"
  ipv6_is_reserved :: "128 word \<Rightarrow> bool"
  int_beyond_ascii :: "string \<Rightarrow> int option"
  datetime_now :: "nat \<Rightarrow> int"
  isoformat :: "int \<Rightarrow> string"
  fromisoformat :: "string \<Rightarrow> datetime option"
  ipwhois_is_defined :: "ip_address \<Rightarrow> bool"
  lookup_whois :: "nat \<Rightarrow> ip_address \<Rightarrow> whois_result"
  gethostbyaddr :: "string \<Rightarrow> string option"

text \<open>\<open>int(s)\<close>; \<open>None\<close> is its \<open>ValueError\<close>.\<close>

definition py_int :: "env \<Rightarrow> string \<Rightarrow> int option" where
  "py_int e s = (if isascii s then ascii_int s else int_beyond_ascii e s)"

text \<open>
  The IPv6 parser is consulted only for a string that passes its first checks: no \<open>/\<close>, and
  at least three parts between colons before the scope id.
\<close>

definition ipv6_shape :: "string \<Rightarrow> bool" where
  "ipv6_shape addr_str =
     (CHR ''/'' \<notin> set addr_str
      \<and> length (split (CHR '':'') (takeWhile (\<lambda>c. c \<noteq> CHR ''%'') addr_str)) \<ge> 3)"

definition IPv6Address_of_string :: "env \<Rightarrow> string \<Rightarrow> ip_address option" where
  "IPv6Address_of_string e addr_str =
     (if ipv6_shape addr_str
      then map_option (\<lambda>(ip, scope_id). IPv6Address ip scope_id) (ipv6_address e addr_str)
      else None)"

definition IPv6Network_of_string :: "env \<Rightarrow> string \<Rightarrow> ip_network option" where
  "IPv6Network_of_string e address =
     (let addr = split (CHR ''/'') address
      in if length addr > 2 then None
         else if ipv6_shape (hd addr)
           then map_option (\<lambda>(ip, prefixlen). IPv6Network ip prefixlen) (ipv6_network e address)
         else None)"

definition ip_address :: "env \<Rightarrow> string \<Rightarrow> ip_address option" where
  "ip_address e address =
     (case IPv4Address_of_string address of
        Some ip \<Rightarrow> Some (IPv4Address ip)
      | None \<Rightarrow> IPv6Address_of_string e address)"

definition ip_network :: "env \<Rightarrow> string \<Rightarrow> ip_network option" where
  \<comment> \<open>\<open>ip_network(address)\<close>, with \<open>strict=True\<close>\<close>
  "ip_network e address =
     (case IPv4Network_parse address of
        Some (packed, prefixlen) \<Rightarrow>
          if packed AND ip_int_from_prefix prefixlen \<noteq> packed then None
          else Some (IPv4Network packed prefixlen)
      | None \<Rightarrow> IPv6Network_of_string e address)"

text \<open>\<open>other in self\<close> for a network \<open>self\<close> and an address \<open>other\<close>.\<close>

fun contains :: "ip_network \<Rightarrow> ip_address \<Rightarrow> bool" where
  "contains (IPv4Network network_address prefixlen) (IPv4Address ip) =
     (ip AND ip_int_from_prefix prefixlen = network_address)"
| "contains (IPv6Network network_address prefixlen) (IPv6Address ip scope_id) =
     (ip AND ip_int_from_prefix prefixlen = network_address)"
| "contains _ _ = False"

definition v4 :: "nat \<Rightarrow> nat \<Rightarrow> nat \<Rightarrow> nat \<Rightarrow> 32 word" where
  \<comment> \<open>the integer of the dotted quad \<open>a.b.c.d\<close>\<close>
  "v4 a b c d = word_of_nat (((a * 256 + b) * 256 + c) * 256 + d)"

definition private_networks :: "ip_network list" where
  "private_networks =
     [IPv4Network (v4 0 0 0 0) 8,
      IPv4Network (v4 10 0 0 0) 8,
      IPv4Network (v4 127 0 0 0) 8,
      IPv4Network (v4 169 254 0 0) 16,
      IPv4Network (v4 172 16 0 0) 12,
      IPv4Network (v4 192 0 0 0) 24,
      IPv4Network (v4 192 0 0 170) 31,
      IPv4Network (v4 192 0 2 0) 24,
      IPv4Network (v4 192 168 0 0) 16,
      IPv4Network (v4 198 18 0 0) 15,
      IPv4Network (v4 198 51 100 0) 24,
      IPv4Network (v4 203 0 113 0) 24,
      IPv4Network (v4 240 0 0 0) 4,
      IPv4Network (v4 255 255 255 255) 32]"

definition private_networks_exceptions :: "ip_network list" where
  "private_networks_exceptions =
     [IPv4Network (v4 192 0 0 9) 32,
      IPv4Network (v4 192 0 0 10) 32]"

fun is_private :: "env \<Rightarrow> ip_address \<Rightarrow> bool" where
  "is_private e (IPv4Address ip) =
     (list_ex (\<lambda>net. contains net (IPv4Address ip)) private_networks
      \<and> list_all (\<lambda>net. \<not> contains net (IPv4Address ip)) private_networks_exceptions)"
| "is_private e (IPv6Address ip scope_id) = ipv6_is_private e ip"

fun is_loopback :: "env \<Rightarrow> ip_address \<Rightarrow> bool" where
  "is_loopback e (IPv4Address ip) = contains (IPv4Network (v4 127 0 0 0) 8) (IPv4Address ip)"
| "is_loopback e (IPv6Address ip scope_id) = ipv6_is_loopback e ip"

fun is_multicast :: "env \<Rightarrow> ip_address \<Rightarrow> bool" where
  "is_multicast e (IPv4Address ip) = contains (IPv4Network (v4 224 0 0 0) 4) (IPv4Address ip)"
| "is_multicast e (IPv6Address ip scope_id) = ipv6_is_multicast e ip"

fun is_unspecified :: "env \<Rightarrow> ip_address \<Rightarrow> bool" where
  "is_unspecified e (IPv4Address ip) = (ip = v4 0 0 0 0)"
| "is_unspecified e (IPv6Address ip scope_id) = ipv6_is_unspecified e ip"

fun is_reserved :: "env \<Rightarrow> ip_address \<Rightarrow> bool" where
  "is_reserved e (IPv4Address ip) = contains (IPv4Network (v4 240 0 0 0) 4) (IPv4Address ip)"
| "is_reserved e (IPv6Address ip scope_id) = ipv6_is_reserved e ip"

section \<open>Dictionaries in insertion order\<close>

text \<open>
  A Python dictionary keeps its keys in insertion order, and the program depends on it (the
  first matching network wins). A dictionary is a list of pairs with distinct keys:
  assigning to a key that is present keeps its place, a new key goes to the end.
\<close>

fun dict_set :: "'k \<Rightarrow> 'v \<Rightarrow> ('k \<times> 'v) list \<Rightarrow> ('k \<times> 'v) list" where
  "dict_set k v [] = [(k, v)]"
| "dict_set k v ((k', v') # d) =
     (if k' = k then (k, v) # d else (k', v') # dict_set k v d)"

fun dict_del :: "'k \<Rightarrow> ('k \<times> 'v) list \<Rightarrow> ('k \<times> 'v) list" where
  "dict_del k [] = []"
| "dict_del k ((k', v') # d) = (if k' = k then d else (k', v') # dict_del k d)"

section \<open>\<open>cache.py\<close>\<close>

definition DEFAULT_CACHE_FILE :: string where
  "DEFAULT_CACHE_FILE = ''ip_networks_cache.json''"

definition NOT_FOUND_FILE :: string where
  "NOT_FOUND_FILE = ''not_found_list.txt''"

definition CACHE_TIMEOUT_DAYS :: int where
  "CACHE_TIMEOUT_DAYS = 14"

text \<open>
  \<open>relativedelta(days=n)\<close> is \<open>n\<close> days of microseconds. Adding it to a \<open>datetime\<close> raises
  \<open>OverflowError\<close> (here \<open>None\<close>) when the result is outside \<open>datetime.min\<close> .. \<open>datetime.max\<close>;
  \<open>datetime.max\<close> is the last microsecond of the year 9999.
\<close>

definition relativedelta_days :: "int \<Rightarrow> int" where
  "relativedelta_days n = n * 86400000000"

definition datetime_max :: int where
  "datetime_max = 3652059 * 86400000000 - 1"

definition in_range :: "int \<Rightarrow> bool" where
  "in_range t = (0 \<le> t \<and> t \<le> datetime_max)"

fun plus_delta :: "datetime \<Rightarrow> int \<Rightarrow> datetime option" where
  "plus_delta (Naive t) delta = (if in_range (t + delta) then Some (Naive (t + delta)) else None)"
| "plus_delta (Aware t) delta = (if in_range (t + delta) then Some (Aware (t + delta)) else None)"

record ResolvedNetwork =
  address :: string
  description :: string
  name :: string
  cidr :: string
  country :: string
  registry :: string
  fqdn :: string

text \<open>
  The value stored under a CIDR key: a JSON object whose members are strings; a field is
  \<open>None\<close> when the object has no such member.
\<close>

record cache_entry =
  entry_name :: "string option"
  entry_description :: "string option"
  entry_country :: "string option"
  entry_registry :: "string option"
  entry_fqdn :: "string option"
  entry_created :: "string option"

text \<open>
  The world outside the process: the cache files by path (a file either fails to decode as
  JSON or holds an object, given by its members in document order), the text of the
  not-found log, and the counters of the calls made so far to the clock and to the
  registry, with the log of the pauses taken. The not-found log is no cache file.
\<close>

datatype cache_file = Corrupt | Json "(string \<times> cache_entry) list"

record world =
  cache_files :: "string \<Rightarrow> cache_file option"
  not_found_file :: string
  clock_reads :: nat
  queries :: nat
  slept :: "nat list"

definition json_load :: "(string \<times> cache_entry) list \<Rightarrow> (string \<times> cache_entry) list" where
  \<comment> \<open>a member met again replaces the value of the first one\<close>
  "json_load members = foldl (\<lambda>d (k, v). dict_set k v d) [] members"

definition read_clock :: "env \<Rightarrow> world \<Rightarrow> int \<times> world" where
  \<comment> \<open>\<open>datetime.now()\<close>\<close>
  "read_clock e w = (datetime_now e (clock_reads w), w\<lparr>clock_reads := Suc (clock_reads w)\<rparr>)"

definition sleep :: "nat \<Rightarrow> world \<Rightarrow> world" where
  "sleep n w = w\<lparr>slept := slept w @ [n]\<rparr>"

text \<open>
  The three attributes of \<open>NetworkCache\<close> are class attributes in the source, shared by the
  instances that never assign them. The program makes one instance per process, which is
  what the record models.
\<close>

record NetworkCache =
  not_found :: "string list"
  cache :: "(string \<times> cache_entry) list"
  net_to_cidr :: "(ip_network \<times> string) list"

definition class_attributes :: NetworkCache where
  "class_attributes = \<lparr>not_found = [], cache = [], net_to_cidr = []\<rparr>"

text \<open>
  The first loop of \<open>__init__\<close>. It stops at the first entry whose stamp raises:
  \<open>ValueError\<close> from \<open>fromisoformat\<close>, \<open>OverflowError\<close> from adding the time window, and
  \<open>TypeError\<close> from comparing an aware expiry date with the naive \<open>now\<close>.
\<close>

fun stale_keys :: "env \<Rightarrow> int \<Rightarrow> (string \<times> cache_entry) list \<Rightarrow> py_exn + string list" where
  "stale_keys e now [] = Inr []"
| "stale_keys e now ((entry, attrs) # rest) =
     (case entry_created attrs of
        None \<Rightarrow> map_sum id ((#) entry) (stale_keys e now rest)
      | Some str_date \<Rightarrow>
          (case fromisoformat e str_date of
             None \<Rightarrow> Inl ValueError
           | Some created \<Rightarrow>
               (case plus_delta created (relativedelta_days CACHE_TIMEOUT_DAYS) of
                  None \<Rightarrow> Inl OverflowError
                | Some (Aware expiry_date) \<Rightarrow> Inl TypeError
                | Some (Naive expiry_date) \<Rightarrow>
                    if expiry_date \<le> now then map_sum id ((#) entry) (stale_keys e now rest)
                    else stale_keys e now rest)))"

text \<open>
  The dictionary comprehension of \<open>__init__\<close>, \<open>{ip_network(CIDR): CIDR for CIDR in keys}\<close>;
  \<open>None\<close> is the \<open>ValueError\<close> of \<open>ip_network\<close>, which nothing catches there.
\<close>

fun index_keys ::
  "env \<Rightarrow> string list \<Rightarrow> (ip_network \<times> string) list \<Rightarrow> (ip_network \<times> string) list option" where
  "index_keys e [] acc = Some acc"
| "index_keys e (CIDR # rest) acc =
     (case ip_network e CIDR of
        None \<Rightarrow> None
      | Some net \<Rightarrow> index_keys e rest (dict_set net CIDR acc))"

definition NetworkCache_init :: "env \<Rightarrow> string \<Rightarrow> world \<Rightarrow> (py_exn + NetworkCache) \<times> world" where
  \<comment> \<open>\<open>NetworkCache.__init__\<close>: the new object, or the exception that leaves the constructor\<close>
  "NetworkCache_init e cache_file w =
     (case cache_files w cache_file of
        None \<Rightarrow> (Inr class_attributes, w)
      | Some Corrupt \<Rightarrow> (Inr class_attributes, w)
      | Some (Json members) \<Rightarrow>
          (let loaded = json_load members;
               (now, w') = read_clock e w
           in case stale_keys e now loaded of
                Inl exn \<Rightarrow> (Inl exn, w')
              | Inr stale \<Rightarrow>
                  (let kept = foldl (\<lambda>d key. dict_del key d) loaded stale
                   in case index_keys e (map fst kept) [] of
                        None \<Rightarrow> (Inl ValueError, w')
                      | Some idx \<Rightarrow>
                          (Inr \<lparr>not_found = [], cache = kept, net_to_cidr = idx\<rparr>, w'))))"

definition save_cache :: "string \<Rightarrow> NetworkCache \<Rightarrow> world \<Rightarrow> world" where
  "save_cache cache_file self w =
     w\<lparr>cache_files := (cache_files w)(cache_file \<mapsto> Json (cache self))\<rparr>"

definition save_not_found :: "NetworkCache \<times> world \<Rightarrow> NetworkCache \<times> world" where
  "save_not_found s =
     (case s of (self, w) \<Rightarrow>
        if length (not_found self) = 0 then (self, w)
        else (self\<lparr>not_found := []\<rparr>,
              w\<lparr>not_found_file := not_found_file w @ join [NL] (not_found self)\<rparr>))"

definition new_entry :: "string \<Rightarrow> string \<Rightarrow> string \<Rightarrow> string \<Rightarrow> string \<Rightarrow> string \<Rightarrow> cache_entry" where
  "new_entry nm descr ctry reg host created =
     \<lparr>entry_name = Some nm, entry_description = Some descr, entry_country = Some ctry,
      entry_registry = Some reg, entry_fqdn = Some host, entry_created = Some created\<rparr>"

definition cache_set ::
  "env \<Rightarrow> string \<Rightarrow> string \<Rightarrow> string \<Rightarrow> string \<Rightarrow> string \<Rightarrow> string
     \<Rightarrow> NetworkCache \<times> world \<Rightarrow> NetworkCache \<times> world" where
  \<comment> \<open>\<open>NetworkCache.set\<close>\<close>
  "cache_set e network nm descr ctry reg host s =
     (case s of (self, w) \<Rightarrow>
        (case read_clock e w of (now, w') \<Rightarrow>
           (let attrs = new_entry nm descr ctry reg host (isoformat e now);
                self' = cache_update (dict_set network attrs) self
            in case ip_network e network of
                 Some net \<Rightarrow> (net_to_cidr_update (dict_set net network) self', w')
               | None \<Rightarrow> (self', w'))))"

text \<open>
  \<open>get_network\<close>, through \<open>_get\<close> and the constructor of \<open>ResolvedNetwork\<close>: a missing key or
  member is a \<open>KeyError\<close>.
\<close>

definition get_network :: "string \<Rightarrow> string \<Rightarrow> NetworkCache \<Rightarrow> py_exn + ResolvedNetwork" where
  "get_network addr network self =
     (case map_of (cache self) network of
        None \<Rightarrow> Inl KeyError
      | Some attrs \<Rightarrow>
          (case (entry_name attrs, entry_country attrs, entry_description attrs,
                 entry_registry attrs, entry_fqdn attrs) of
             (Some net_name, Some net_country, Some net_description,
              Some net_registry, Some net_rdns_fqdn) \<Rightarrow>
               Inr \<lparr>address = addr, description = net_description, name = net_name,
                    cidr = network, country = net_country, registry = net_registry,
                    fqdn = net_rdns_fqdn\<rparr>
           | _ \<Rightarrow> Inl KeyError))"

text \<open>The loop of \<open>in_cache\<close> over the keys of \<open>net_to_cidr\<close>, in their order.\<close>

fun first_match :: "(ip_network \<times> string) list \<Rightarrow> ip_address \<Rightarrow> string option" where
  "first_match [] addr = None"
| "first_match ((net, CIDR) # rest) addr =
     (if contains net addr then Some CIDR else first_match rest addr)"

definition in_cache :: "ip_address \<Rightarrow> NetworkCache \<Rightarrow> string option \<times> NetworkCache" where
  "in_cache addr self = (first_match (net_to_cidr self) addr, self)"

section \<open>\<open>lookup.py\<close>\<close>

definition RETRY_COUNT_MAX :: nat where
  "RETRY_COUNT_MAX = 3"

definition SLEEP_TIME :: nat where
  "SLEEP_TIME = 2"

definition SLEEP_INTERVAL :: nat where
  "SLEEP_INTERVAL = 10"

definition CACHE_SAVE_INTERVAL :: nat where
  "CACHE_SAVE_INTERVAL = 100"

definition TIMEOUT_SLEEP :: nat where
  "TIMEOUT_SLEEP = 10"

definition ReservedNetNames :: "string list" where
  "ReservedNetNames = [''IANA-BLK'']"

definition PRIVATE_IP_DESCR :: string where
  "PRIVATE_IP_DESCR = ''Private (RFC 1918 or APIPA) range''"

definition LOOPBACK_IP_DESCR :: string where
  "LOOPBACK_IP_DESCR = ''Loopback range''"

definition MCAST_IP_DESCR :: string where
  "MCAST_IP_DESCR = ''Multicast range''"

definition RSVD_IP_DESCR :: string where
  "RSVD_IP_DESCR = ''Reserved IP range''"

definition INVALID_IP_DESCR :: string where
  "INVALID_IP_DESCR = ''Invalid IP Address''"

definition well_known :: "string \<Rightarrow> string \<Rightarrow> ResolvedNetwork" where
  \<comment> \<open>\<open>ResolvedNetwork(address=address, description=descr)\<close>\<close>
  "well_known addr descr =
     \<lparr>address = addr, description = descr, name = [], cidr = [], country = [],
      registry = [], fqdn = []\<rparr>"

definition check_known_nets ::
  "env \<Rightarrow> string \<Rightarrow> ip_address option \<times> ResolvedNetwork option" where
  \<comment> \<open>\<open>RirSearcher._check_known_nets\<close>\<close>
  "check_known_nets e addr =
     (let host_addr = split (CHR ''/'') addr ! 0
      in case ip_address e host_addr of
           None \<Rightarrow> (None, Some (well_known addr INVALID_IP_DESCR))
         | Some ip \<Rightarrow>
             if is_private e ip then (None, Some (well_known addr PRIVATE_IP_DESCR))
             else if is_loopback e ip then (None, Some (well_known addr LOOPBACK_IP_DESCR))
             else if is_multicast e ip then (None, Some (well_known addr MCAST_IP_DESCR))
             else if is_unspecified e ip \<or> is_reserved e ip
               then (None, Some (well_known addr RSVD_IP_DESCR))
             else (Some ip, None))"

text \<open>
  The retry loop of \<open>single_lookup\<close>: the result is the final \<open>retry_count\<close> and \<open>response\<close>
  (\<open>None\<close> for the empty dictionary it starts as).
\<close>

function whois_retry ::
  "env \<Rightarrow> ip_address \<Rightarrow> nat \<Rightarrow> world \<Rightarrow> nat \<times> whois_response option \<times> world" where
  "whois_retry e ip retry_count w =
     (if retry_count < RETRY_COUNT_MAX then
        (case lookup_whois e (queries w) ip of
           Response response \<Rightarrow> (retry_count, Some response, w\<lparr>queries := Suc (queries w)\<rparr>)
         | TimeoutError \<Rightarrow>
             whois_retry e ip (retry_count + 1)
               (sleep TIMEOUT_SLEEP (w\<lparr>queries := Suc (queries w)\<rparr>))
         | _ \<Rightarrow> (retry_count, None, w\<lparr>queries := Suc (queries w)\<rparr>))
      else (retry_count, None, w))"
  by pat_completeness auto
termination
  by (relation "measure (\<lambda>(e, ip, retry_count, w). RETRY_COUNT_MAX - retry_count)") auto

declare whois_retry.simps [simp del]

definition newline_to_space :: "string \<Rightarrow> string" where
  \<comment> \<open>\<open>.replace("\\n", " ")\<close>\<close>
  "newline_to_space s = replace NL '' '' s"

text \<open>The block "Build description": \<open>net_cidr\<close>, \<open>net_name\<close>, \<open>net_description\<close>, \<open>net_country\<close>.\<close>

definition build_description :: "whois_response \<Rightarrow> string \<times> string \<times> string \<times> string" where
  "build_description response =
     (case nets response of
        n # _ \<Rightarrow>
          (newline_to_space (str (nets_cidr n)), newline_to_space (str (nets_name n)),
           newline_to_space (str (nets_description n)), newline_to_space (str (nets_country n)))
      | [] \<Rightarrow>
          (newline_to_space (str (asn_cidr response)), [],
           newline_to_space (str (asn_description response)),
           newline_to_space (str (asn_country_code response))))"

text \<open>
  The reverse DNS block: \<open>None\<close> is the \<open>ValueError\<close> of \<open>int(host_and_mask[1])\<close>; a host that
  does not resolve (\<open>socket.herror\<close>) leaves the name empty.
\<close>

definition rdns_fqdn :: "env \<Rightarrow> string \<Rightarrow> string option" where
  "rdns_fqdn e addr =
     (let host_and_mask = split (CHR ''/'') addr;
          resolved = (case gethostbyaddr e (host_and_mask ! 0) of Some host \<Rightarrow> host | None \<Rightarrow> [])
      in if length host_and_mask = 1 then Some resolved
         else case py_int e (host_and_mask ! 1) of
                None \<Rightarrow> None
              | Some prefixlen \<Rightarrow> if prefixlen = 32 then Some resolved else Some [])"

text \<open>
  The subnets to cache: \<open>asn_cidr\<close> unless it is \<open>None\<close> or \<open>"NA"\<close>, else the CIDR list of the
  first net (\<open>IndexError\<close> without a net, \<open>AttributeError\<close> when its CIDR is \<open>None\<close>).
\<close>

definition first_net_cidrs :: "whois_response \<Rightarrow> py_exn + string list" where
  \<comment> \<open>\<open>response['nets'][0]['cidr'].replace(" ", "").split(",")\<close>\<close>
  "first_net_cidrs response =
     (case nets response of
        [] \<Rightarrow> Inl IndexError
      | n # _ \<Rightarrow>
          (case nets_cidr n of
             None \<Rightarrow> Inl AttributeError
           | Some c \<Rightarrow> Inr (split (CHR '','') (replace (CHR '' '') [] c))))"

definition subnets_of :: "whois_response \<Rightarrow> py_exn + string list" where
  "subnets_of response =
     (case asn_cidr response of
        None \<Rightarrow> first_net_cidrs response
      | Some c \<Rightarrow> if c = ''NA'' then first_net_cidrs response else Inr [c])"

fun set_subnets ::
  "env \<Rightarrow> string list \<Rightarrow> string \<Rightarrow> string \<Rightarrow> string \<Rightarrow> string \<Rightarrow> string
     \<Rightarrow> NetworkCache \<times> world \<Rightarrow> NetworkCache \<times> world" where
  "set_subnets e [] nm descr ctry reg host s = s"
| "set_subnets e (net # subnets) nm descr ctry reg host s =
     set_subnets e subnets nm descr ctry reg host (cache_set e net nm descr ctry reg host s)"

text \<open>
  What \<open>single_lookup\<close> returns: \<open>(known_net, cached, error, resolved_net)\<close>. The four outcomes
  of the workflow are the four shapes of this tuple.
\<close>

type_synonym lookup = "bool \<times> bool \<times> bool \<times> ResolvedNetwork option"

definition wellKnown :: "ResolvedNetwork \<Rightarrow> lookup" where
  "wellKnown resolved_net = (True, False, False, Some resolved_net)"

definition cacheHit :: "ResolvedNetwork \<Rightarrow> lookup" where
  "cacheHit resolved_net = (False, True, False, Some resolved_net)"

definition lookedUp :: "ResolvedNetwork \<Rightarrow> lookup" where
  "lookedUp resolved_net = (False, False, False, Some resolved_net)"

definition failed :: lookup where
  "failed = (False, False, True, None)"

text \<open>
  \<open>single_lookup\<close> from the construction of the registry client on, for an address that is
  not in the cache. The constructor is called outside the \<open>try\<close>, so its \<open>IPDefinedError\<close>
  leaves \<open>single_lookup\<close>.
\<close>

definition rir_lookup ::
  "env \<Rightarrow> string \<Rightarrow> ip_address \<Rightarrow> bool \<Rightarrow> NetworkCache \<times> world
     \<Rightarrow> (py_exn + lookup) \<times> NetworkCache \<times> world" where
  "rir_lookup e addr ip persist s =
     (case s of (self, w) \<Rightarrow>
      if ipwhois_is_defined e ip then (Inl IPDefinedError, self, w)
      else
      (case whois_retry e ip 0 w of (retry_count, response, w1) \<Rightarrow>
        (if retry_count = RETRY_COUNT_MAX \<or> response = None
         then (Inr failed, self\<lparr>not_found := not_found self @ [addr]\<rparr>, w1)
         else
           (case build_description (the response) of
              (net_cidr, net_name, net_description, net_country) \<Rightarrow>
             (let net_registry = newline_to_space (str (asn_registry (the response)))
              in case rdns_fqdn e addr of
                   None \<Rightarrow> (Inl ValueError, self, w1)
                 | Some net_rdns_fqdn \<Rightarrow>
                    (let resolved_net =
                           \<lparr>address = addr, description = net_description, name = net_name,
                            cidr = net_cidr, country = net_country, registry = net_registry,
                            fqdn = net_rdns_fqdn\<rparr>
                     in if net_name \<notin> set ReservedNetNames then
                          (case subnets_of (the response) of
                             Inl exn \<Rightarrow> (Inl exn, self, w1)
                           | Inr subnets \<Rightarrow>
                              (case set_subnets e subnets net_name net_description
                                      net_country net_registry net_rdns_fqdn (self, w1) of
                                 (self2, w2) \<Rightarrow>
                                   if persist
                                   then (case save_not_found
                                                (self2, save_cache DEFAULT_CACHE_FILE self2 w2) of
                                           (self3, w3) \<Rightarrow> (Inr (lookedUp resolved_net), self3, w3))
                                   else (Inr (lookedUp resolved_net), self2, w2)))
                        else (Inr (lookedUp resolved_net), self, w1)))))))"

text \<open>
  \<open>single_lookup\<close>. The walrus test \<open>if net := in_cache(ip)\<close> is a test of truth, so an empty
  CIDR string counts as a miss. \<open>_check_known_nets\<close> never returns \<open>(None, None)\<close>; were the
  address \<open>None\<close>, the first use of it would raise.
\<close>

definition single_lookup ::
  "env \<Rightarrow> string \<Rightarrow> bool \<Rightarrow> NetworkCache \<times> world \<Rightarrow> (py_exn + lookup) \<times> NetworkCache \<times> world" where
  "single_lookup e addr persist s =
     (case s of (self, w) \<Rightarrow>
      (case check_known_nets e addr of
         (_, Some resolved_net) \<Rightarrow> (Inr (wellKnown resolved_net), self, w)
       | (None, None) \<Rightarrow> (Inl AttributeError, self, w)
       | (Some ip, None) \<Rightarrow>
           (case in_cache ip self of
              (Some net, self1) \<Rightarrow>
                if net \<noteq> [] then
                  (case get_network addr net self1 of
                     Inl exn \<Rightarrow> (Inl exn, self1, w)
                   | Inr data \<Rightarrow> (Inr (cacheHit data), self1, w))
                else rir_lookup e addr ip persist (self1, w)
            | (None, self1) \<Rightarrow> rir_lookup e addr ip persist (self1, w))))"

record RirSearcher =
  resolved_ip_list :: "ResolvedNetwork option list"
  raw_ip_list :: "string list"
  ncache :: NetworkCache
  start_cache_size :: nat

text \<open>
  The loop of \<open>search_list\<close> over the copy of \<open>raw_ip_list\<close>, with its two counters. An
  exception of \<open>single_lookup\<close> is caught nowhere and ends the batch.
\<close>

fun search_loop ::
  "env \<Rightarrow> string list \<Rightarrow> nat \<times> nat \<Rightarrow> RirSearcher \<times> world
     \<Rightarrow> (py_exn + nat \<times> nat) \<times> RirSearcher \<times> world" where
  "search_loop e [] counters s = (Inr counters, s)"
| "search_loop e (addr # ip_list) counters s =
     (case (counters, s) of ((cache_hits, lookups), self, w) \<Rightarrow>
      (case single_lookup e addr False (ncache self, w) of
         (Inl exn, c, w1) \<Rightarrow> (Inl exn, self\<lparr>ncache := c\<rparr>, w1)
       | (Inr (known_net, cached, error, resolved_net), c, w1) \<Rightarrow>
           if known_net then
             search_loop e ip_list (cache_hits, lookups)
               (self\<lparr>ncache := c, resolved_ip_list := resolved_ip_list self @ [resolved_net]\<rparr>, w1)
           else if cached then
             search_loop e ip_list (cache_hits + 1, lookups)
               (self\<lparr>ncache := c, resolved_ip_list := resolved_ip_list self @ [resolved_net]\<rparr>, w1)
           else if error then
             search_loop e ip_list (cache_hits, lookups + 1)
               (self\<lparr>ncache := c\<lparr>not_found := not_found c @ [addr]\<rparr>\<rparr>, w1)
           else
             (let w2 = (if (lookups + 1) mod SLEEP_INTERVAL = 0 then sleep SLEEP_TIME w1 else w1);
                  w3 = (if (lookups + 1) mod CACHE_SAVE_INTERVAL = 0
                        then save_cache DEFAULT_CACHE_FILE c w2 else w2)
              in search_loop e ip_list (cache_hits, lookups + 1)
                   (self\<lparr>ncache := c, resolved_ip_list := resolved_ip_list self @ [resolved_net]\<rparr>,
                    w3))))"

definition search_list ::
  "env \<Rightarrow> RirSearcher \<times> world \<Rightarrow> (py_exn + nat \<times> nat) \<times> RirSearcher \<times> world" where
  "search_list e s =
     (case search_loop e (raw_ip_list (fst s)) (0, 0) s of
        (Inl exn, self, w) \<Rightarrow> (Inl exn, self, w)
      | (Inr counters, self, w) \<Rightarrow>
          (let w1 = (if length (cache (ncache self)) > start_cache_size self
                     then save_cache DEFAULT_CACHE_FILE (ncache self) w else w)
           in case save_not_found (ncache self, w1) of
                (c, w2) \<Rightarrow> (Inr counters, self\<lparr>ncache := c\<rparr>, w2)))"

section \<open>Test doubles\<close>

text \<open>
  An environment for concrete runs: no IPv6 support, no digits beyond ASCII, a clock that
  stands still at \<open>now\<close>, a calendar that lists the ISO strings in use with what they
  denote, a registry client that holds 192.88.99.0/24 (6to4 relay anycast) to be defined,
  as \<open>ipwhois\<close> does, and the given registry and reverse DNS.
\<close>

definition mock_env ::
  "(string \<times> datetime) list \<Rightarrow> int \<Rightarrow> (nat \<Rightarrow> ip_address \<Rightarrow> whois_result)
     \<Rightarrow> (string \<Rightarrow> string option) \<Rightarrow> env" where
  "mock_env calendar now whois rdns =
     \<lparr>ipv6_address = (\<lambda>s. None), ipv6_network = (\<lambda>s. None),
      ipv6_is_private = (\<lambda>ip. False), ipv6_is_loopback = (\<lambda>ip. False),
      ipv6_is_multicast = (\<lambda>ip. False), ipv6_is_unspecified = (\<lambda>ip. False),
      ipv6_is_reserved = (\<lambda>ip. False),
      int_beyond_ascii = (\<lambda>s. None),
      datetime_now = (\<lambda>n. now),
      isoformat =
        (\<lambda>t. case find (\<lambda>(s, t'). t' = Naive t) calendar of Some (s, t') \<Rightarrow> s | None \<Rightarrow> []),
      fromisoformat = map_of calendar,
      ipwhois_is_defined = contains (IPv4Network (v4 192 88 99 0) 24),
      lookup_whois = whois, gethostbyaddr = rdns\<rparr>"

definition scenario_now :: int where
  \<comment> \<open>2026-11-04T12:00:00\<close>
  "scenario_now = 63929390400000000"

definition mock_world :: "(string \<Rightarrow> cache_file option) \<Rightarrow> world" where
  "mock_world files =
     \<lparr>cache_files = files, not_found_file = [], clock_reads = 0, queries = 0, slept = []\<rparr>"

text \<open>
  The entry found under a cache key holds the given fields and a creation stamp.
\<close>

definition written ::
  "string \<Rightarrow> string \<Rightarrow> string \<Rightarrow> string \<Rightarrow> string \<Rightarrow> cache_entry option \<Rightarrow> bool" where
  "written nm descr ctry reg host x =
     (case x of
        None \<Rightarrow> False
      | Some attrs \<Rightarrow>
          entry_name attrs = Some nm \<and> entry_description attrs = Some descr
          \<and> entry_country attrs = Some ctry \<and> entry_registry attrs = Some reg
          \<and> entry_fqdn attrs = Some host \<and> entry_created attrs \<noteq> None)"

text \<open>
  The registry of the end-to-end scenario: every query is answered with one net
  \<open>EXAMPLE-NET\<close> of the given CIDR, registry \<open>ARIN\<close>, no \<open>asn_cidr\<close>; no host has a reverse
  DNS entry.
\<close>

definition example_response :: "string \<Rightarrow> whois_response" where
  "example_response c =
     \<lparr>nets = [\<lparr>nets_cidr = Some c, nets_name = Some ''EXAMPLE-NET'',
               nets_description = Some ''Example'', nets_country = Some ''US''\<rparr>],
      asn_cidr = None, asn_description = None, asn_country_code = None,
      asn_registry = Some ''ARIN''\<rparr>"

definition example_env :: "string \<Rightarrow> env" where
  "example_env c =
     mock_env [(''2026-11-04T12:00:00'', Naive scenario_now)] scenario_now
       (\<lambda>n ip. Response (example_response c))
       (\<lambda>host. None)"

definition batch_searcher :: "string list \<Rightarrow> RirSearcher" where
  \<comment> \<open>a searcher over an empty cache, with the given token list\<close>
  "batch_searcher tokens =
     \<lparr>resolved_ip_list = [], raw_ip_list = tokens, ncache = class_attributes,
      start_cache_size = 0\<rparr>"

definition fresh_entry :: cache_entry where
  \<comment> \<open>the entry that \<open>set\<close> writes for the scenario's net at the scenario's clock\<close>
  "fresh_entry = new_entry ''EXAMPLE-NET'' ''Example'' ''US'' ''ARIN'' [] ''2026-11-04T12:00:00''"

text \<open>
  An entry is expired at a point in time when it has no creation stamp, or when its stamp
  plus 14 days is not after that point (the specification's words, to compare with what
  \<open>__init__\<close> prunes).
\<close>

definition expired :: "env \<Rightarrow> int \<Rightarrow> cache_entry \<Rightarrow> bool" where
  "expired e now attrs =
     (case entry_created attrs of
        None \<Rightarrow> True
      | Some str_date \<Rightarrow>
          (case fromisoformat e str_date of
             Some (Naive created) \<Rightarrow> created + relativedelta_days 14 \<le> now
           | _ \<Rightarrow> False))"

text \<open>
  The stamp of an entry can be compared with the clock: it is absent, or a naive ISO date
  that stays in range when 14 days are added.
\<close>

definition readable :: "env \<Rightarrow> cache_entry \<Rightarrow> bool" where
  "readable e attrs =
     (case entry_created attrs of
        None \<Rightarrow> True
      | Some str_date \<Rightarrow>
          (case fromisoformat e str_date of
             Some (Naive created) \<Rightarrow> in_range (created + relativedelta_days 14)
           | _ \<Rightarrow> False))"

text \<open>
  A cache file for the expiry scenario: one entry written 15 days before the load, one
  written 13 days before it, and one without a creation stamp.
\<close>

definition aged_entry :: "string \<Rightarrow> cache_entry" where
  "aged_entry created = new_entry ''EXAMPLE-NET'' ''Example'' ''US'' ''ARIN'' [] created"

definition unstamped_entry :: cache_entry where
  "unstamped_entry = (aged_entry [])\<lparr>entry_created := None\<rparr>"

definition ageing_env :: env where
  "ageing_env =
     mock_env [(''2026-10-20T12:00:00'', Naive (scenario_now - relativedelta_days 15)),
               (''2026-10-22T12:00:00'', Naive (scenario_now - relativedelta_days 13))]
       scenario_now (\<lambda>n ip. TimeoutError) (\<lambda>host. None)"

definition aged_file :: "(string \<times> cache_entry) list" where
  "aged_file =
     [(''10.0.0.0/8'', aged_entry ''2026-10-20T12:00:00''),
      (''8.8.8.0/24'', aged_entry ''2026-10-22T12:00:00''),
      (''9.9.9.0/24'', unstamped_entry)]"

text \<open>
  A registry that answers every query with a block named \<open>IANA-BLK\<close>.
\<close>

definition iana_response :: whois_response where
  "iana_response =
     \<lparr>nets = [\<lparr>nets_cidr = Some ''8.0.0.0/8'', nets_name = Some ''IANA-BLK'',
               nets_description = Some ''Delegated block'', nets_country = Some ''US''\<rparr>],
      asn_cidr = Some ''8.8.8.0/24'', asn_description = Some ''EXAMPLE-AS'',
      asn_country_code = Some ''US'', asn_registry = Some ''ARIN''\<rparr>"

definition iana_env :: env where
  "iana_env = mock_env [(''2026-11-04T12:00:00'', Naive scenario_now)] scenario_now
     (\<lambda>n ip. Response iana_response)
     (\<lambda>host. None)"

text \<open>Every element of a list, two times in a row.\<close>

definition twice :: "string list \<Rightarrow> string list" where
  "twice xs = concat (map (\<lambda>a. [a, a]) xs)"

section \<open>Evaluation on concrete input\<close>

lemmas parse_defs =
  IPv4Address_of_string_def ip_int_from_string_def parse_octet_def isdigit_def decimal_def
  digit_val_def IPv4Network_parse_def make_netmask_def prefix_from_prefix_string_def
  int_digits_def int_max_str_digits_def
  ip_network_def ip_address_def ipv6_shape_def IPv6Address_of_string_def
  IPv6Network_of_string_def

lemmas mask_defs =
  ip_int_from_prefix_def mask_eq_exp_minus_1 not_eq_complement v4_def private_networks_def
  private_networks_exceptions_def

lemmas int_defs =
  py_int_def isascii_def ascii_int_def strip_def isspace_def int_digits_def
  int_max_str_digits_def isdigit_def decimal_def digit_val_def

lemma mock_world_simps [simp]:
  "cache_files (mock_world files) = files"
  "not_found_file (mock_world files) = []"
  "clock_reads (mock_world files) = 0"
  "queries (mock_world files) = 0"
  "slept (mock_world files) = []"
  by (simp_all add: mock_world_def)

lemma mock_env_simps [simp]:
  "ipv6_address (mock_env calendar now whois rdns) = (\<lambda>s. None)"
  "ipv6_network (mock_env calendar now whois rdns) = (\<lambda>s. None)"
  "int_beyond_ascii (mock_env calendar now whois rdns) = (\<lambda>s. None)"
  "datetime_now (mock_env calendar now whois rdns) = (\<lambda>n. now)"
  "fromisoformat (mock_env calendar now whois rdns) = map_of calendar"
  "isoformat (mock_env calendar now whois rdns)
     = (\<lambda>t. case find (\<lambda>(s, t'). t' = Naive t) calendar of Some (s, t') \<Rightarrow> s | None \<Rightarrow> [])"
  "ipwhois_is_defined (mock_env calendar now whois rdns) = contains (IPv4Network (v4 192 88 99 0) 24)"
  "lookup_whois (mock_env calendar now whois rdns) = whois"
  "gethostbyaddr (mock_env calendar now whois rdns) = rdns"
  by (simp_all add: mock_env_def)

lemmas time_defs =
  relativedelta_days_def CACHE_TIMEOUT_DAYS_def datetime_max_def in_range_def scenario_now_def

lemma split_nonempty [simp]: "split sep s \<noteq> []"
  by (induction s) (simp_all add: Let_def)

section \<open>Classification of well-known addresses\<close>

text \<open>
  Every IPv4 address of the loopback network is private for the library, so the loopback
  branch of \<open>_check_known_nets\<close> is never taken for an IPv4 token.
\<close>

lemma loopback_is_private:
  assumes "is_loopback e (IPv4Address ip)"
  shows "is_private e (IPv4Address ip)"
  using assms by (auto simp add: mask_defs)

lemma check_known_nets_loopback:
  assumes "ip_address e (split (CHR ''/'') addr ! 0) = Some (IPv4Address ip)"
    and "is_loopback e (IPv4Address ip)"
  shows "check_known_nets e addr = (None, Some (well_known addr PRIVATE_IP_DESCR))"
  using assms loopback_is_private [OF assms(2)] by (simp add: check_known_nets_def)

text \<open>
  C5. The claim: for every token whose host part is a loopback address, such as
  \<open>"127.0.0.1"\<close>, classification returns the record described \<open>"Loopback range"\<close>, with no
  host address, and \<open>single_lookup\<close> returns the well-known outcome without touching the
  cache or the registry. On the code, the token \<open>"127.0.0.1"\<close> is classified by the earlier
  test \<open>is_private\<close>: its record is described \<open>"Private (RFC 1918 or APIPA) range"\<close>, which is
  another string. The second half of the claim holds: the outcome is well-known, and the
  cache and the world are as before.
\<close>

theorem C5_loopback_token_described_private:
  "check_known_nets e ''127.0.0.1'' = (None, Some (well_known ''127.0.0.1'' PRIVATE_IP_DESCR))
   \<and> description (well_known ''127.0.0.1'' PRIVATE_IP_DESCR) = ''Private (RFC 1918 or APIPA) range''
   \<and> description (well_known ''127.0.0.1'' PRIVATE_IP_DESCR) \<noteq> LOOPBACK_IP_DESCR
   \<and> single_lookup e ''127.0.0.1'' persist (self, w)
       = (Inr (wellKnown (well_known ''127.0.0.1'' PRIVATE_IP_DESCR)), self, w)"
proof -
  have c: "check_known_nets e ''127.0.0.1'' = (None, Some (well_known ''127.0.0.1'' PRIVATE_IP_DESCR))"
    by (simp add: check_known_nets_def parse_defs mask_defs)
  have d: "description (well_known ''127.0.0.1'' PRIVATE_IP_DESCR) = ''Private (RFC 1918 or APIPA) range''"
    by (simp add: well_known_def PRIVATE_IP_DESCR_def)
  have l: "description (well_known ''127.0.0.1'' PRIVATE_IP_DESCR) \<noteq> LOOPBACK_IP_DESCR"
    by (simp add: well_known_def PRIVATE_IP_DESCR_def LOOPBACK_IP_DESCR_def)
  have s: "single_lookup e ''127.0.0.1'' persist (self, w)
             = (Inr (wellKnown (well_known ''127.0.0.1'' PRIVATE_IP_DESCR)), self, w)"
    by (simp add: single_lookup_def c)
  from c d l s show ?thesis by simp
qed

section \<open>Dictionaries and cache writes\<close>

lemma map_of_dict_set: "map_of (dict_set k v d) = (map_of d)(k \<mapsto> v)"
  by (induction d) (auto simp add: fun_eq_iff)

lemma keys_dict_set: "fst ` set (dict_set k v d) = insert k (fst ` set d)"
  by (simp add: dom_map_of_conv_image_fst [symmetric] map_of_dict_set)

lemma distinct_dict_set: "distinct (map fst d) \<Longrightarrow> distinct (map fst (dict_set k v d))"
proof (induction d)
  case Nil
  then show ?case by simp
next
  case (Cons p d)
  obtain k' v' where p: "p = (k', v')" by (cases p)
  from Cons show ?case
    using keys_dict_set [of k v d] by (auto simp add: p)
qed

lemma cache_of_cache_set:
  "cache (fst (cache_set e network nm descr ctry reg host (self, w)))
     = dict_set network (new_entry nm descr ctry reg host (isoformat e (datetime_now e (clock_reads w)))) (cache self)"
  by (simp add: cache_set_def read_clock_def Let_def split: option.split)

lemma not_found_of_cache_set:
  "not_found (fst (cache_set e network nm descr ctry reg host (self, w))) = not_found self"
  by (simp add: cache_set_def read_clock_def Let_def split: option.split)

lemma set_subnets_written:
  "k \<in> set subnets \<or> written nm descr ctry reg host (map_of (cache (fst s)) k)
   \<Longrightarrow> written nm descr ctry reg host
         (map_of (cache (fst (set_subnets e subnets nm descr ctry reg host s))) k)"
proof (induction subnets arbitrary: s)
  case Nil
  then show ?case by simp
next
  case (Cons net subnets)
  obtain self w where s: "s = (self, w)" by (cases s)
  have "k \<in> set subnets \<or> written nm descr ctry reg host
          (map_of (cache (fst (cache_set e net nm descr ctry reg host s))) k)"
    using Cons.prems
    by (auto simp add: s cache_of_cache_set map_of_dict_set written_def new_entry_def)
  from Cons.IH [OF this] show ?case by simp
qed

lemma whois_retry_response:
  "lookup_whois e (queries w) ip = Response r
   \<Longrightarrow> whois_retry e ip 0 w = (0, Some r, w\<lparr>queries := Suc (queries w)\<rparr>)"
  by (simp add: whois_retry.simps RETRY_COUNT_MAX_def)

lemma split_absent: "sep \<notin> set s \<Longrightarrow> split sep s = [s]"
  by (induction s) (auto simp add: Let_def)

lemma rdns_fqdn_bare:
  "CHR ''/'' \<notin> set addr \<Longrightarrow>
   rdns_fqdn e addr = Some (case gethostbyaddr e addr of Some host \<Rightarrow> host | None \<Rightarrow> [])"
  by (simp add: rdns_fqdn_def split_absent)

lemma cache_of_save_not_found: "cache (fst (save_not_found s)) = cache (fst s)"
  by (cases s) (simp add: save_not_found_def)

section \<open>The end-to-end scenario\<close>

text \<open>
  C1, as stated. The claim: for the token \<open>"203.0.113.5"\<close>, an empty cache, a registry that
  answers with the one net \<open>203.0.113.0/24\<close> (\<open>EXAMPLE-NET\<close>, \<open>US\<close>, \<open>Example\<close>, registry
  \<open>ARIN\<close>) and no reverse DNS entry, \<open>single_lookup\<close> returns the looked-up outcome with that
  record and the cache gets an entry under \<open>"203.0.113.0/24"\<close>. On the code the token is
  well known: \<open>203.0.113.0/24\<close> is one of the library's private networks, so the outcome is
  the well-known record described as private, the registry is not asked, and the cache
  has no entry under that key.
\<close>

theorem C1_counterexample:
  "fst (single_lookup (example_env ''203.0.113.0/24'') ''203.0.113.5'' True
          (class_attributes, mock_world Map.empty))
     = Inr (wellKnown (well_known ''203.0.113.5'' PRIVATE_IP_DESCR))
   \<and> wellKnown (well_known ''203.0.113.5'' PRIVATE_IP_DESCR)
       \<noteq> lookedUp \<lparr>address = ''203.0.113.5'', description = ''Example'', name = ''EXAMPLE-NET'',
                    cidr = ''203.0.113.0/24'', country = ''US'', registry = ''ARIN'', fqdn = []\<rparr>
   \<and> map_of (cache (fst (snd (single_lookup (example_env ''203.0.113.0/24'') ''203.0.113.5'' True
          (class_attributes, mock_world Map.empty))))) ''203.0.113.0/24'' = None"
proof -
  have c: "check_known_nets (example_env ''203.0.113.0/24'') ''203.0.113.5''
             = (None, Some (well_known ''203.0.113.5'' PRIVATE_IP_DESCR))"
    by (simp add: check_known_nets_def parse_defs mask_defs)
  show ?thesis
    by (simp add: single_lookup_def c wellKnown_def lookedUp_def class_attributes_def)
qed

text \<open>
  C1, amended. For a token that is a bare address and that classification lets through
  (\<open>"8.8.8.5"\<close> is one, \<open>"203.0.113.5"\<close> is not), with no cached network containing it and
  an address for which the constructor of the registry client does not raise
  \<open>IPDefinedError\<close>, when the first registry query returns a response whose nets list holds
  one entry with a CIDR, a name outside \<open>ReservedNetNames\<close>, a description and a country,
  whose \<open>asn_cidr\<close> is \<open>None\<close> or \<open>"NA"\<close>, and reverse DNS finds no entry: \<open>single_lookup\<close>
  returns the looked-up outcome with the record of the token, the net's fields (newlines
  turned into spaces), the registry and an empty FQDN, and afterwards the cache mapping
  holds an entry with these fields under every CIDR of the net's comma-separated list.
\<close>

theorem C1_routable_token_looked_up_and_cached:
  assumes routable: "check_known_nets e addr = (Some ip, None)"
    and bare: "CHR ''/'' \<notin> set addr"
    and miss: "fst (in_cache ip self) = None"
    and accepted: "\<not> ipwhois_is_defined e ip"
    and answer: "lookup_whois e (queries w) ip = Response r"
    and one_net: "nets r = [\<lparr>nets_cidr = Some c, nets_name = Some nm,
                            nets_description = Some d, nets_country = Some k\<rparr>]"
    and reg: "asn_registry r = Some reg"
    and asn: "asn_cidr r = None \<or> asn_cidr r = Some ''NA''"
    and no_rdns: "gethostbyaddr e addr = None"
    and open_name: "newline_to_space nm \<notin> set ReservedNetNames"
  shows "fst (single_lookup e addr persist (self, w))
           = Inr (lookedUp \<lparr>address = addr, description = newline_to_space d,
                            name = newline_to_space nm, cidr = newline_to_space c,
                            country = newline_to_space k, registry = newline_to_space reg,
                            fqdn = []\<rparr>)
         \<and> (\<forall>key \<in> set (split (CHR '','') (replace (CHR '' '') [] c)).
               written (newline_to_space nm) (newline_to_space d) (newline_to_space k)
                 (newline_to_space reg) []
                 (map_of (cache (fst (snd (single_lookup e addr persist (self, w))))) key))"
proof -
  let ?subnets = "split (CHR '','') (replace (CHR '' '') [] c)"
  let ?w1 = "w\<lparr>queries := Suc (queries w)\<rparr>"
  let ?rec = "\<lparr>address = addr, description = newline_to_space d,
                name = newline_to_space nm, cidr = newline_to_space c,
                country = newline_to_space k, registry = newline_to_space reg, fqdn = []\<rparr>"
  let ?s2 = "set_subnets e ?subnets (newline_to_space nm) (newline_to_space d)
               (newline_to_space k) (newline_to_space reg) [] (self, ?w1)"
  have descr: "build_description r
                 = (newline_to_space c, newline_to_space nm, newline_to_space d, newline_to_space k)"
    by (simp add: build_description_def one_net str_def)
  have subs: "subnets_of r = Inr ?subnets"
    using asn by (auto simp add: subnets_of_def first_net_cidrs_def one_net)
  have rdns: "rdns_fqdn e addr = Some []"
    by (simp add: rdns_fqdn_bare [OF bare] no_rdns)
  have rir: "rir_lookup e addr ip persist (self, w)
               = (if persist
                  then (Inr (lookedUp ?rec),
                        save_not_found (fst ?s2, save_cache DEFAULT_CACHE_FILE (fst ?s2) (snd ?s2)))
                  else (Inr (lookedUp ?rec), ?s2))"
    using open_name accepted
    by (simp add: rir_lookup_def whois_retry_response [OF answer] RETRY_COUNT_MAX_def descr
        subs rdns reg str_def Let_def case_prod_beta)
  from miss have miss': "in_cache ip self = (None, self)"
    by (simp add: in_cache_def)
  have single: "single_lookup e addr persist (self, w) = rir_lookup e addr ip persist (self, w)"
    by (simp add: single_lookup_def routable miss')
  have written: "written (newline_to_space nm) (newline_to_space d) (newline_to_space k)
                   (newline_to_space reg) [] (map_of (cache (fst ?s2)) key)"
    if "key \<in> set ?subnets" for key
    using that by (simp add: set_subnets_written)
  show ?thesis
    using written by (simp add: single rir cache_of_save_not_found)
qed

text \<open>
  C1, witness: the scenario with the token \<open>"8.8.8.5"\<close> and the net \<open>8.8.8.0/24\<close>.
\<close>

theorem C1_routable_token_witness:
  "fst (single_lookup (example_env ''8.8.8.0/24'') ''8.8.8.5'' True
          (class_attributes, mock_world Map.empty))
     = Inr (lookedUp \<lparr>address = ''8.8.8.5'', description = ''Example'', name = ''EXAMPLE-NET'',
                      cidr = ''8.8.8.0/24'', country = ''US'', registry = ''ARIN'', fqdn = []\<rparr>)
   \<and> written ''EXAMPLE-NET'' ''Example'' ''US'' ''ARIN'' []
        (map_of (cache (fst (snd (single_lookup (example_env ''8.8.8.0/24'') ''8.8.8.5'' True
          (class_attributes, mock_world Map.empty))))) ''8.8.8.0/24'')"
proof -
  let ?e = "example_env ''8.8.8.0/24''"
  have h1: "check_known_nets ?e ''8.8.8.5'' = (Some (IPv4Address (v4 8 8 8 5)), None)"
    by (simp add: check_known_nets_def parse_defs mask_defs)
  have h2: "CHR ''/'' \<notin> set ''8.8.8.5''"
    by simp
  have h3: "fst (in_cache (IPv4Address (v4 8 8 8 5)) class_attributes) = None"
    by (simp add: in_cache_def class_attributes_def)
  have acc: "\<not> ipwhois_is_defined ?e (IPv4Address (v4 8 8 8 5))"
    by (simp add: example_env_def mask_defs)
  have h4: "lookup_whois ?e (queries (mock_world Map.empty)) (IPv4Address (v4 8 8 8 5))
              = Response (example_response ''8.8.8.0/24'')"
    by (simp add: example_env_def)
  have h5: "nets (example_response ''8.8.8.0/24'')
              = [\<lparr>nets_cidr = Some ''8.8.8.0/24'', nets_name = Some ''EXAMPLE-NET'',
                   nets_description = Some ''Example'', nets_country = Some ''US''\<rparr>]"
    by (simp add: example_response_def)
  have h6: "asn_registry (example_response ''8.8.8.0/24'') = Some ''ARIN''"
    by (simp add: example_response_def)
  have h7: "asn_cidr (example_response ''8.8.8.0/24'') = None
              \<or> asn_cidr (example_response ''8.8.8.0/24'') = Some ''NA''"
    by (simp add: example_response_def)
  have h8: "gethostbyaddr ?e ''8.8.8.5'' = None"
    by (simp add: example_env_def)
  have h9: "newline_to_space ''EXAMPLE-NET'' \<notin> set ReservedNetNames"
    by (simp add: newline_to_space_def replace_def NL_def ReservedNetNames_def)
  show ?thesis
    using C1_routable_token_looked_up_and_cached [OF h1 h2 h3 acc h4 h5 h6 h7 h8 h9, of True]
    by (simp add: newline_to_space_def replace_def NL_def)
qed

section \<open>Exceptions that escape\<close>

text \<open>
  C2. The claim: whatever the shape of a token, \<open>single_lookup\<close> as driven by \<open>search_list\<close>
  never raises out of the batch loop, also for a CIDR token whose suffix is no decimal
  integer. On the code, the batch \<open>["8.8.8.8/abc", "127.0.0.1"]\<close> over an empty cache, with
  a registry that answers, ends in the \<open>ValueError\<close> of \<open>int("abc")\<close>: nothing in
  \<open>search_list\<close> catches it (the loop of \<open>search_excel\<close> does), and the second token is never
  resolved.
\<close>

theorem C2_malformed_suffix_aborts_batch:
  "fst (search_list (example_env ''8.8.8.0/24'')
          (batch_searcher [''8.8.8.8/abc'', ''127.0.0.1''], mock_world Map.empty))
     = Inl ValueError
   \<and> resolved_ip_list (fst (snd (search_list (example_env ''8.8.8.0/24'')
          (batch_searcher [''8.8.8.8/abc'', ''127.0.0.1''], mock_world Map.empty)))) = []"
proof -
  let ?e = "example_env ''8.8.8.0/24''"
  have c: "check_known_nets ?e ''8.8.8.8/abc'' = (Some (IPv4Address (v4 8 8 8 8)), None)"
    by (simp add: check_known_nets_def parse_defs mask_defs)
  have q: "lookup_whois ?e (queries (mock_world Map.empty)) (IPv4Address (v4 8 8 8 8))
             = Response (example_response ''8.8.8.0/24'')"
    by (simp add: example_env_def)
  have d: "\<not> ipwhois_is_defined ?e (IPv4Address (v4 8 8 8 8))"
    by (simp add: example_env_def mask_defs)
  have r: "rdns_fqdn ?e ''8.8.8.8/abc'' = None"
    by (simp add: rdns_fqdn_def int_defs)
  have s: "single_lookup ?e ''8.8.8.8/abc'' False (class_attributes, mock_world Map.empty)
             = (Inl ValueError, class_attributes, (mock_world Map.empty)\<lparr>queries := Suc 0\<rparr>)"
    using d
    by (simp add: single_lookup_def c in_cache_def class_attributes_def rir_lookup_def
        whois_retry_response [OF q] RETRY_COUNT_MAX_def r Let_def case_prod_beta)
  show ?thesis
    by (simp add: search_list_def batch_searcher_def s)
qed

text \<open>
  C4. The claim: loading skips a cache key that does not parse as a network (the key stays
  in the mapping and out of the index) and never raises for a well-formed cache file. On
  the code, loading the file \<open>{"bogus": {..., "created": <now>}}\<close> raises the \<open>ValueError\<close> of
  \<open>ip_network("bogus")\<close>: the comprehension that rebuilds the index has no handler. The
  sibling \<open>set\<close> has one: \<open>set("bogus", ...)\<close> keeps the entry in the mapping and leaves the
  index as it was, which is how such a key gets into a saved file.
\<close>

theorem C4_unparseable_key_fails_load:
  "fst (NetworkCache_init (example_env ''8.8.8.0/24'') DEFAULT_CACHE_FILE
          (mock_world [DEFAULT_CACHE_FILE \<mapsto> Json [(''bogus'', fresh_entry)]]))
     = Inl ValueError
   \<and> cache (fst (cache_set (example_env ''8.8.8.0/24'') ''bogus'' ''EXAMPLE-NET'' ''Example''
               ''US'' ''ARIN'' [] (class_attributes, mock_world Map.empty)))
       = [(''bogus'', fresh_entry)]
   \<and> net_to_cidr (fst (cache_set (example_env ''8.8.8.0/24'') ''bogus'' ''EXAMPLE-NET'' ''Example''
               ''US'' ''ARIN'' [] (class_attributes, mock_world Map.empty))) = []"
proof -
  let ?e = "example_env ''8.8.8.0/24''"
  have n: "ip_network e ''bogus'' = None" for e
    by (simp add: parse_defs)
  have load: "fst (NetworkCache_init ?e DEFAULT_CACHE_FILE
          (mock_world [DEFAULT_CACHE_FILE \<mapsto> Json [(''bogus'', fresh_entry)]])) = Inl ValueError"
    by (simp add: NetworkCache_init_def json_load_def read_clock_def n fresh_entry_def
        new_entry_def example_env_def time_defs)
  have set: "cache_set ?e ''bogus'' ''EXAMPLE-NET'' ''Example'' ''US'' ''ARIN'' []
               (class_attributes, mock_world Map.empty)
             = (\<lparr>not_found = [], cache = [(''bogus'', fresh_entry)], net_to_cidr = []\<rparr>,
                (mock_world Map.empty)\<lparr>clock_reads := Suc 0\<rparr>)"
    by (simp add: cache_set_def read_clock_def n class_attributes_def fresh_entry_def
        example_env_def)
  show ?thesis
    by (simp add: load set)
qed

text \<open>
  C9. The claim: for every cache state, saving and loading into a fresh cache gives the
  entries that are not expired at load time. On the code, for the cache state reached by
  \<open>set("bogus", ...)\<close> on an empty cache, saving and then loading raises \<open>ValueError\<close> and
  gives no cache at all; the defect is the one of C4. (\<open>save_load_round_trip\<close> below is the
  round trip for the cache states whose keys all parse.)
\<close>

theorem C9_round_trip_fails_on_unparseable_key:
  "fst (NetworkCache_init (example_env ''8.8.8.0/24'') DEFAULT_CACHE_FILE
          (save_cache DEFAULT_CACHE_FILE
             (fst (cache_set (example_env ''8.8.8.0/24'') ''bogus'' ''EXAMPLE-NET'' ''Example''
                     ''US'' ''ARIN'' [] (class_attributes, mock_world Map.empty)))
             (snd (cache_set (example_env ''8.8.8.0/24'') ''bogus'' ''EXAMPLE-NET'' ''Example''
                     ''US'' ''ARIN'' [] (class_attributes, mock_world Map.empty)))))
     = Inl ValueError"
proof -
  let ?e = "example_env ''8.8.8.0/24''"
  have n: "ip_network e ''bogus'' = None" for e
    by (simp add: parse_defs)
  have set: "cache_set ?e ''bogus'' ''EXAMPLE-NET'' ''Example'' ''US'' ''ARIN'' []
               (class_attributes, mock_world Map.empty)
             = (\<lparr>not_found = [], cache = [(''bogus'', fresh_entry)], net_to_cidr = []\<rparr>,
                (mock_world Map.empty)\<lparr>clock_reads := Suc 0\<rparr>)"
    by (simp add: cache_set_def read_clock_def n class_attributes_def fresh_entry_def
        example_env_def)
  show ?thesis
    unfolding set
    by (simp add: save_cache_def NetworkCache_init_def json_load_def read_clock_def n
        fresh_entry_def new_entry_def example_env_def time_defs)
qed

section \<open>Loading and pruning\<close>

lemma distinct_json_load_aux:
  "distinct (map fst acc) \<Longrightarrow> distinct (map fst (foldl (\<lambda>d (k, v). dict_set k v d) acc members))"
  by (induction members arbitrary: acc) (auto simp add: distinct_dict_set)

lemma distinct_json_load: "distinct (map fst (json_load members))"
  by (simp add: json_load_def distinct_json_load_aux)

lemma dict_set_new: "k \<notin> fst ` set d \<Longrightarrow> dict_set k v d = d @ [(k, v)]"
  by (induction d) auto

lemma json_load_distinct_aux:
  "distinct (map fst (acc @ d)) \<Longrightarrow> foldl (\<lambda>d (k, v). dict_set k v d) acc d = acc @ d"
proof (induction d arbitrary: acc)
  case Nil
  then show ?case by simp
next
  case (Cons p d)
  obtain k v where p: "p = (k, v)" by (cases p)
  from Cons.prems have new: "k \<notin> fst ` set acc"
    by (auto simp add: p)
  from Cons.prems have "distinct (map fst ((acc @ [(k, v)]) @ d))"
    by (auto simp add: p)
  from Cons.IH [OF this] show ?case
    by (simp add: p dict_set_new [OF new])
qed

lemma json_load_distinct: "distinct (map fst d) \<Longrightarrow> json_load d = d"
  using json_load_distinct_aux [of "[]" d] by (simp add: json_load_def)

lemma stale_keys_readable:
  assumes "\<forall>(key, attrs) \<in> set d. readable e attrs"
  shows "stale_keys e now d = Inr (map fst (filter (\<lambda>(key, attrs). expired e now attrs) d))"
  using assms
proof (induction d)
  case Nil
  then show ?case by simp
next
  case (Cons p d)
  obtain key attrs where p: "p = (key, attrs)" by (cases p)
  from Cons.prems have rest: "stale_keys e now d
      = Inr (map fst (filter (\<lambda>(key, attrs). expired e now attrs) d))"
    by (intro Cons.IH) auto
  from Cons.prems have "readable e attrs"
    by (simp add: p)
  then show ?case
    by (auto simp add: p rest expired_def readable_def CACHE_TIMEOUT_DAYS_def
        split: option.splits datetime.splits)
qed

lemma plus_delta_cases:
  "plus_delta created delta =
     (case created of
        Naive t \<Rightarrow> if in_range (t + delta) then Some (Naive (t + delta)) else None
      | Aware t \<Rightarrow> if in_range (t + delta) then Some (Aware (t + delta)) else None)"
  by (cases created) simp_all

lemma stale_keys_Inr_readable:
  assumes "stale_keys e now d = Inr stale"
  shows "\<forall>(key, attrs) \<in> set d. readable e attrs"
  using assms
proof (induction d arbitrary: stale)
  case Nil
  then show ?case by simp
next
  case (Cons p d)
  obtain key attrs where p: "p = (key, attrs)" by (cases p)
  from Cons.prems obtain rest where rest: "stale_keys e now d = Inr rest"
    by (cases "stale_keys e now d")
      (auto simp add: p split: option.splits datetime.splits if_splits)
  from Cons.prems have "readable e attrs"
    by (auto simp add: p readable_def CACHE_TIMEOUT_DAYS_def plus_delta_cases
        split: option.splits datetime.splits if_splits)
  with Cons.IH [OF rest] show ?case
    by (simp add: p)
qed

lemma stale_keys_Inr:
  assumes "stale_keys e now d = Inr stale"
  shows "stale = map fst (filter (\<lambda>(key, attrs). expired e now attrs) d)"
  using stale_keys_readable [OF stale_keys_Inr_readable [OF assms], of now] assms
  by simp

lemma dict_del_filter:
  "distinct (map fst d) \<Longrightarrow> dict_del k d = filter (\<lambda>(k', v). k' \<noteq> k) d"
proof (induction d)
  case Nil
  then show ?case by simp
next
  case (Cons p d)
  obtain k' v' where p: "p = (k', v')" by (cases p)
  from Cons.prems have "filter (\<lambda>(k'', v). k'' \<noteq> k') d = d"
    by (force simp add: p filter_id_conv)
  with Cons show ?case
    by (auto simp add: p)
qed

lemma delete_stale_filter:
  "distinct (map fst d) \<Longrightarrow>
   foldl (\<lambda>d key. dict_del key d) d stale = filter (\<lambda>(k, v). k \<notin> set stale) d"
proof (induction stale arbitrary: d)
  case Nil
  then show ?case by simp
next
  case (Cons key stale)
  have "distinct (map fst (dict_del key d))"
    using Cons.prems by (simp add: dict_del_filter distinct_map_filter)
  from Cons.IH [OF this] show ?case
    using Cons.prems by (auto simp add: dict_del_filter intro: filter_cong)
qed

lemma keep_not_stale:
  assumes "distinct (map fst d)"
  shows "filter (\<lambda>(k, v). k \<notin> set (map fst (filter (\<lambda>(k, v). P v) d))) d
           = filter (\<lambda>(k, v). \<not> P v) d"
proof (rule filter_cong [OF refl])
  fix p assume mem: "p \<in> set d"
  obtain k v where p: "p = (k, v)" by (cases p)
  have "k \<in> set (map fst (filter (\<lambda>(k, v). P v) d)) \<longleftrightarrow> P v"
  proof
    assume "k \<in> set (map fst (filter (\<lambda>(k, v). P v) d))"
    then obtain v' where "(k, v') \<in> set d" "P v'"
      by auto
    with assms mem p show "P v"
      by (metis eq_key_imp_eq_value)
  next
    assume "P v"
    with mem p show "k \<in> set (map fst (filter (\<lambda>(k, v). P v) d))"
      by force
  qed
  then show "(case p of (k, v) \<Rightarrow> k \<notin> set (map fst (filter (\<lambda>(k, v). P v) d)))
               = (case p of (k, v) \<Rightarrow> \<not> P v)"
    by (simp add: p)
qed

lemma index_keys_total:
  "\<forall>k \<in> set ks. ip_network e k \<noteq> None \<Longrightarrow> \<exists>idx. index_keys e ks acc = Some idx"
  by (induction ks arbitrary: acc) auto

lemma index_keys_fails:
  "k \<in> set ks \<Longrightarrow> ip_network e k = None \<Longrightarrow> index_keys e ks acc = None"
  by (induction ks arbitrary: acc) (auto split: option.splits)

lemma kept_after_load:
  "foldl (\<lambda>d key. dict_del key d) (json_load members)
     (map fst (filter (\<lambda>(key, attrs). expired e now attrs) (json_load members)))
   = filter (\<lambda>(key, attrs). \<not> expired e now attrs) (json_load members)"
  by (simp only: delete_stale_filter [OF distinct_json_load]
      keep_not_stale [OF distinct_json_load, of "expired e now"])

lemma load_returns:
  assumes on_disk: "cache_files w path = Some (Json members)"
    and stamps: "\<forall>(key, attrs) \<in> set (json_load members). readable e attrs"
    and keys: "\<forall>(key, attrs) \<in> set (json_load members).
                 \<not> expired e (datetime_now e (clock_reads w)) attrs \<longrightarrow> ip_network e key \<noteq> None"
  shows "\<exists>idx. NetworkCache_init e path w
           = (Inr \<lparr>not_found = [],
                   cache = filter (\<lambda>(key, attrs). \<not> expired e (datetime_now e (clock_reads w)) attrs)
                             (json_load members),
                   net_to_cidr = idx\<rparr>,
              w\<lparr>clock_reads := Suc (clock_reads w)\<rparr>)"
proof -
  let ?now = "datetime_now e (clock_reads w)"
  let ?d = "json_load members"
  let ?stale = "map fst (filter (\<lambda>(key, attrs). expired e ?now attrs) ?d)"
  let ?kept = "filter (\<lambda>(key, attrs). \<not> expired e ?now attrs) ?d"
  have st: "stale_keys e ?now ?d = Inr ?stale"
    by (rule stale_keys_readable [OF stamps])
  have "\<forall>k \<in> set (map fst ?kept). ip_network e k \<noteq> None"
    using keys by auto
  from index_keys_total [OF this] obtain idx where idx: "index_keys e (map fst ?kept) [] = Some idx"
    by blast
  show ?thesis
    by (rule exI [of _ idx])
      (simp add: NetworkCache_init_def on_disk read_clock_def st kept_after_load idx Let_def
        del: map_map)
qed

lemma load_Inr:
  assumes on_disk: "cache_files w path = Some (Json members)"
    and loaded: "fst (NetworkCache_init e path w) = Inr self"
  shows "cache self = filter (\<lambda>(key, attrs). \<not> expired e (datetime_now e (clock_reads w)) attrs)
                        (json_load members)"
proof -
  let ?now = "datetime_now e (clock_reads w)"
  let ?d = "json_load members"
  from loaded obtain stale where st: "stale_keys e ?now ?d = Inr stale"
    by (cases "stale_keys e ?now ?d")
      (auto simp add: NetworkCache_init_def on_disk read_clock_def Let_def)
  note stale = stale_keys_Inr [OF st]
  from loaded show ?thesis
    by (auto simp add: NetworkCache_init_def on_disk read_clock_def Let_def st stale
        kept_after_load split: option.splits simp del: map_map)
qed

text \<open>
  C3. Loading a persisted cache at time \<open>now\<close> prunes exactly the entries whose creation
  stamp is missing or satisfies \<open>created + 14 days \<le> now\<close>: whenever the constructor returns,
  the loaded mapping is the file's mapping without the expired entries, so an entry
  created 15 days ago is removed, an entry created 13 days ago survives, and an entry
  without the stamp is removed. The constructor returns when every stamp in the file can
  be compared with the clock and every surviving key parses as a network.
\<close>

theorem C3_load_prunes_expired_entries:
  assumes on_disk: "cache_files w path = Some (Json members)"
    and now: "now = datetime_now e (clock_reads w)"
  shows "(\<forall>self. fst (NetworkCache_init e path w) = Inr self \<longrightarrow>
            cache self = filter (\<lambda>(key, attrs). \<not> expired e now attrs) (json_load members)
          \<and> (\<forall>(key, attrs) \<in> set (json_load members).
                 (entry_created attrs = None \<longrightarrow> key \<notin> fst ` set (cache self))
               \<and> (\<forall>s. entry_created attrs = Some s
                         \<and> fromisoformat e s = Some (Naive (now - relativedelta_days 15))
                       \<longrightarrow> key \<notin> fst ` set (cache self))
               \<and> (\<forall>s. entry_created attrs = Some s
                         \<and> fromisoformat e s = Some (Naive (now - relativedelta_days 13))
                       \<longrightarrow> (key, attrs) \<in> set (cache self))))
     \<and> ((\<forall>(key, attrs) \<in> set (json_load members). readable e attrs)
          \<and> (\<forall>(key, attrs) \<in> set (json_load members).
                 \<not> expired e now attrs \<longrightarrow> ip_network e key \<noteq> None)
        \<longrightarrow> (\<exists>self. fst (NetworkCache_init e path w) = Inr self))"
proof (intro conjI allI impI)
  fix self
  assume loaded: "fst (NetworkCache_init e path w) = Inr self"
  let ?d = "json_load members"
  let ?kept = "filter (\<lambda>(key, attrs). \<not> expired e now attrs) ?d"
  from load_Inr [OF on_disk loaded] show kept: "cache self = ?kept"
    by (simp add: now)
  have gone: "key \<notin> fst ` set ?kept" if "(key, attrs) \<in> set ?d" "expired e now attrs" for key attrs
  proof
    assume "key \<in> fst ` set ?kept"
    then obtain attrs' where "(key, attrs') \<in> set ?d" "\<not> expired e now attrs'"
      by auto
    with that distinct_json_load [of members] show False
      by (metis eq_key_imp_eq_value)
  qed
  have "\<forall>(key, attrs) \<in> set ?d.
        (entry_created attrs = None \<longrightarrow> key \<notin> fst ` set ?kept)
        \<and> (\<forall>s. entry_created attrs = Some s
                  \<and> fromisoformat e s = Some (Naive (now - relativedelta_days 15))
                \<longrightarrow> key \<notin> fst ` set ?kept)
        \<and> (\<forall>s. entry_created attrs = Some s
                  \<and> fromisoformat e s = Some (Naive (now - relativedelta_days 13))
                \<longrightarrow> (key, attrs) \<in> set ?kept)"
  proof (intro ballI, clarify, intro conjI allI impI)
    fix key attrs
    assume mem: "(key, attrs) \<in> set ?d" and "entry_created attrs = None"
    then have "expired e now attrs"
      by (simp add: expired_def)
    with mem show "key \<notin> fst ` set ?kept"
      by (rule gone)
  next
    fix key attrs s
    assume mem: "(key, attrs) \<in> set ?d" and "entry_created attrs = Some s
      \<and> fromisoformat e s = Some (Naive (now - relativedelta_days 15))"
    then have "expired e now attrs"
      by (simp add: expired_def relativedelta_days_def)
    with mem show "key \<notin> fst ` set ?kept"
      by (rule gone)
  next
    fix key attrs s
    assume mem: "(key, attrs) \<in> set ?d" and "entry_created attrs = Some s
      \<and> fromisoformat e s = Some (Naive (now - relativedelta_days 13))"
    then have "\<not> expired e now attrs"
      by (simp add: expired_def relativedelta_days_def)
    with mem show "(key, attrs) \<in> set ?kept"
      by simp
  qed
  then show "\<forall>(key, attrs) \<in> set (json_load members).
                 (entry_created attrs = None \<longrightarrow> key \<notin> fst ` set (cache self))
               \<and> (\<forall>s. entry_created attrs = Some s
                         \<and> fromisoformat e s = Some (Naive (now - relativedelta_days 15))
                       \<longrightarrow> key \<notin> fst ` set (cache self))
               \<and> (\<forall>s. entry_created attrs = Some s
                         \<and> fromisoformat e s = Some (Naive (now - relativedelta_days 13))
                       \<longrightarrow> (key, attrs) \<in> set (cache self))"
    unfolding kept .
next
  assume "(\<forall>(key, attrs) \<in> set (json_load members). readable e attrs)
          \<and> (\<forall>(key, attrs) \<in> set (json_load members).
                 \<not> expired e now attrs \<longrightarrow> ip_network e key \<noteq> None)"
  then have stamps: "\<forall>(key, attrs) \<in> set (json_load members). readable e attrs"
    and keys: "\<forall>(key, attrs) \<in> set (json_load members).
                 \<not> expired e (datetime_now e (clock_reads w)) attrs \<longrightarrow> ip_network e key \<noteq> None"
    by (simp_all add: now)
  from load_returns [OF on_disk stamps keys]
  show "\<exists>self. fst (NetworkCache_init e path w) = Inr self"
    by auto
qed

text \<open>
  C3, witness: of the three entries of the scenario's file, the one written 13 days before
  the load is the only one left.
\<close>

theorem C3_load_witness:
  "\<exists>self. fst (NetworkCache_init ageing_env DEFAULT_CACHE_FILE
                 (mock_world [DEFAULT_CACHE_FILE \<mapsto> Json aged_file])) = Inr self
     \<and> cache self = [(''8.8.8.0/24'', aged_entry ''2026-10-22T12:00:00'')]"
proof -
  let ?w = "mock_world [DEFAULT_CACHE_FILE \<mapsto> Json aged_file]"
  have jl: "json_load aged_file = aged_file"
    by (simp add: json_load_def aged_file_def)
  have h1: "cache_files ?w DEFAULT_CACHE_FILE = Some (Json aged_file)"
    by simp
  have h2: "scenario_now = datetime_now ageing_env (clock_reads ?w)"
    by (simp add: ageing_env_def)
  have h3: "\<forall>(key, attrs) \<in> set (json_load aged_file). readable ageing_env attrs"
    unfolding jl
    by (simp add: aged_file_def aged_entry_def unstamped_entry_def new_entry_def ageing_env_def
        readable_def time_defs)
  have h4: "\<forall>(key, attrs) \<in> set (json_load aged_file).
              \<not> expired ageing_env scenario_now attrs \<longrightarrow> ip_network ageing_env key \<noteq> None"
    unfolding jl
    by (simp add: aged_file_def parse_defs mask_defs)
  have kept: "filter (\<lambda>(key, attrs). \<not> expired ageing_env scenario_now attrs) aged_file
                = [(''8.8.8.0/24'', aged_entry ''2026-10-22T12:00:00'')]"
    by (simp add: aged_file_def aged_entry_def unstamped_entry_def new_entry_def ageing_env_def
        expired_def time_defs)
  from C3_load_prunes_expired_entries [OF h1 h2] h3 h4 show ?thesis
    by (auto simp add: jl kept)
qed

text \<open>
  Saving and loading at once gives back the entries that are not expired, for a cache
  whose stamps can be compared with the clock and whose unexpired keys parse as networks.
\<close>

lemma save_load_round_trip:
  assumes keys_distinct: "distinct (map fst (cache self))"
    and stamps: "\<forall>(key, attrs) \<in> set (cache self). readable e attrs"
    and keys: "\<forall>(key, attrs) \<in> set (cache self).
                 \<not> expired e (datetime_now e (clock_reads w)) attrs \<longrightarrow> ip_network e key \<noteq> None"
  shows "\<exists>self'. fst (NetworkCache_init e path (save_cache path self w)) = Inr self'
           \<and> cache self' = filter (\<lambda>(key, attrs). \<not> expired e (datetime_now e (clock_reads w)) attrs)
                              (cache self)"
proof -
  let ?w = "save_cache path self w"
  have on_disk: "cache_files ?w path = Some (Json (cache self))"
    by (simp add: save_cache_def)
  have clock: "clock_reads ?w = clock_reads w"
    by (simp add: save_cache_def)
  note same = json_load_distinct [OF keys_distinct]
  from load_returns [of ?w path "cache self" e] stamps keys
  show ?thesis
    by (auto simp add: same on_disk clock)
qed

section \<open>Containment queries\<close>

lemma first_match_None_iff:
  "first_match idx addr = None \<longleftrightarrow> (\<forall>(net, CIDR) \<in> set idx. \<not> contains net addr)"
  by (induction idx) (auto split: if_splits)

lemma first_match_Some:
  "first_match idx addr = Some CIDR \<Longrightarrow>
   \<exists>before net after. idx = before @ (net, CIDR) # after \<and> contains net addr
     \<and> (\<forall>(net', CIDR') \<in> set before. \<not> contains net' addr)"
proof (induction idx)
  case Nil
  then show ?case by simp
next
  case (Cons p idx)
  obtain n c where p: "p = (n, c)" by (cases p)
  show ?case
  proof (cases "contains n addr")
    case True
    with Cons.prems have "c = CIDR" by (simp add: p)
    with True show ?thesis
      by (intro exI [of _ "[]"] exI [of _ n] exI [of _ idx]) (simp add: p)
  next
    case False
    with Cons.prems have "first_match idx addr = Some CIDR" by (simp add: p)
    from Cons.IH [OF this] obtain before net after where
      found: "idx = before @ (net, CIDR) # after" "contains net addr"
        "\<forall>(net', CIDR') \<in> set before. \<not> contains net' addr"
      by blast
    with False show ?thesis
      by (intro exI [of _ "p # before"] exI [of _ net] exI [of _ after]) (simp add: p)
  qed
qed

lemma first_match_dict_set:
  "first_match idx addr = None \<Longrightarrow> contains net addr \<Longrightarrow>
   first_match (dict_set net CIDR idx) addr = Some CIDR"
  by (induction idx) (auto split: if_splits)

lemma net_to_cidr_of_cache_set:
  "net_to_cidr (fst (cache_set e network nm descr ctry reg host (self, w)))
     = (case ip_network e network of
          Some net \<Rightarrow> dict_set net network (net_to_cidr self)
        | None \<Rightarrow> net_to_cidr self)"
  by (simp add: cache_set_def read_clock_def Let_def split: option.split)

lemma ten_slash_eight: "ip_network e ''10.0.0.0/8'' = Some (IPv4Network (v4 10 0 0 0) 8)"
  by (simp add: parse_defs mask_defs)

lemma ten_one_slash_sixteen: "ip_network e ''10.1.0.0/16'' = Some (IPv4Network (v4 10 1 0 0) 16)"
  by (simp add: parse_defs mask_defs)

text \<open>
  C6. The token \<open>"10.1.2.3"\<close> is the address 10.1.2.3. After \<open>set("10.0.0.0/8", ...)\<close> on a
  cache none of whose indexed networks contains 10.1.2.3, \<open>in_cache\<close> of it returns
  \<open>"10.0.0.0/8"\<close>. For every address that no indexed network contains, \<open>in_cache\<close> returns
  \<open>None\<close> and leaves the cache object (mapping, index, unresolved queue) as it was. When
  \<open>in_cache\<close> returns a CIDR, the object is unchanged and the CIDR is that of the first
  network in index order that contains the address; so after \<open>set("10.0.0.0/8", ...)\<close> and
  then \<open>set("10.1.0.0/16", ...)\<close> on an empty cache the answer for 10.1.2.3 is
  \<open>"10.0.0.0/8"\<close>, not the more specific block.
\<close>

theorem C6_containment_is_first_match:
  "ip_address e ''10.1.2.3'' = Some (IPv4Address (v4 10 1 2 3))
   \<and> (fst (in_cache (IPv4Address (v4 10 1 2 3)) self) = None \<longrightarrow>
        fst (in_cache (IPv4Address (v4 10 1 2 3))
               (fst (cache_set e ''10.0.0.0/8'' nm descr ctry reg host (self, w))))
          = Some ''10.0.0.0/8'')
   \<and> ((\<forall>(net, CIDR) \<in> set (net_to_cidr self). \<not> contains net addr) \<longrightarrow>
        in_cache addr self = (None, self))
   \<and> (\<forall>CIDR. fst (in_cache addr self) = Some CIDR \<longrightarrow>
        snd (in_cache addr self) = self
        \<and> (\<exists>before net after.
              net_to_cidr self = before @ (net, CIDR) # after \<and> contains net addr
              \<and> (\<forall>(net', CIDR') \<in> set before. \<not> contains net' addr)))
   \<and> fst (in_cache (IPv4Address (v4 10 1 2 3))
             (fst (cache_set e ''10.1.0.0/16'' nm descr ctry reg host
                     (cache_set e ''10.0.0.0/8'' nm descr ctry reg host (class_attributes, w)))))
       = Some ''10.0.0.0/8''"
proof (intro conjI impI allI)
  show "ip_address e ''10.1.2.3'' = Some (IPv4Address (v4 10 1 2 3))"
    by (simp add: parse_defs mask_defs)
next
  assume "fst (in_cache (IPv4Address (v4 10 1 2 3)) self) = None"
  then have "first_match (net_to_cidr self) (IPv4Address (v4 10 1 2 3)) = None"
    by (simp add: in_cache_def)
  moreover have "contains (IPv4Network (v4 10 0 0 0) 8) (IPv4Address (v4 10 1 2 3))"
    by (simp add: mask_defs)
  ultimately show "fst (in_cache (IPv4Address (v4 10 1 2 3))
               (fst (cache_set e ''10.0.0.0/8'' nm descr ctry reg host (self, w))))
          = Some ''10.0.0.0/8''"
    by (simp add: in_cache_def net_to_cidr_of_cache_set ten_slash_eight first_match_dict_set)
next
  assume "\<forall>(net, CIDR) \<in> set (net_to_cidr self). \<not> contains net addr"
  then show "in_cache addr self = (None, self)"
    by (simp add: in_cache_def first_match_None_iff)
next
  fix CIDR assume "fst (in_cache addr self) = Some CIDR"
  then show "snd (in_cache addr self) = self"
    by (simp add: in_cache_def)
next
  fix CIDR assume "fst (in_cache addr self) = Some CIDR"
  then have "first_match (net_to_cidr self) addr = Some CIDR"
    by (simp add: in_cache_def)
  then show "\<exists>before net after.
              net_to_cidr self = before @ (net, CIDR) # after \<and> contains net addr
              \<and> (\<forall>(net', CIDR') \<in> set before. \<not> contains net' addr)"
    by (rule first_match_Some)
next
  obtain self1 w1 where s1: "cache_set e ''10.0.0.0/8'' nm descr ctry reg host (class_attributes, w)
      = (self1, w1)"
    by (cases "cache_set e ''10.0.0.0/8'' nm descr ctry reg host (class_attributes, w)")
  have "net_to_cidr (fst (cache_set e ''10.0.0.0/8'' nm descr ctry reg host (class_attributes, w)))
          = [(IPv4Network (v4 10 0 0 0) 8, ''10.0.0.0/8'')]"
    by (simp add: net_to_cidr_of_cache_set ten_slash_eight class_attributes_def)
  then have idx1: "net_to_cidr self1 = [(IPv4Network (v4 10 0 0 0) 8, ''10.0.0.0/8'')]"
    by (simp only: s1 fst_conv)
  show "fst (in_cache (IPv4Address (v4 10 1 2 3))
             (fst (cache_set e ''10.1.0.0/16'' nm descr ctry reg host
                     (cache_set e ''10.0.0.0/8'' nm descr ctry reg host (class_attributes, w)))))
       = Some ''10.0.0.0/8''"
    by (simp add: s1 in_cache_def net_to_cidr_of_cache_set idx1 ten_one_slash_sixteen mask_defs)
qed

text \<open>
  C6, witness: after \<open>set("10.0.0.0/8", ...)\<close> on the empty cache, 10.1.2.3 is found under
  \<open>"10.0.0.0/8"\<close>, and 8.8.8.8 is not found, the cache being left as it was.
\<close>

theorem C6_containment_witness:
  "fst (in_cache (IPv4Address (v4 10 1 2 3))
          (fst (cache_set (example_env ''8.8.8.0/24'') ''10.0.0.0/8'' ''EXAMPLE-NET'' ''Example''
                  ''US'' ''ARIN'' [] (class_attributes, mock_world Map.empty))))
     = Some ''10.0.0.0/8''
   \<and> in_cache (IPv4Address (v4 8 8 8 8))
        (fst (cache_set (example_env ''8.8.8.0/24'') ''10.0.0.0/8'' ''EXAMPLE-NET'' ''Example''
                ''US'' ''ARIN'' [] (class_attributes, mock_world Map.empty)))
       = (None, fst (cache_set (example_env ''8.8.8.0/24'') ''10.0.0.0/8'' ''EXAMPLE-NET''
                ''Example'' ''US'' ''ARIN'' [] (class_attributes, mock_world Map.empty)))"
proof -
  let ?e = "example_env ''8.8.8.0/24''"
  let ?self = "fst (cache_set ?e ''10.0.0.0/8'' ''EXAMPLE-NET'' ''Example''
                  ''US'' ''ARIN'' [] (class_attributes, mock_world Map.empty))"
  have h1: "fst (in_cache (IPv4Address (v4 10 1 2 3)) class_attributes) = None"
    by (simp add: in_cache_def class_attributes_def)
  have idx: "net_to_cidr ?self = [(IPv4Network (v4 10 0 0 0) 8, ''10.0.0.0/8'')]"
    by (simp add: net_to_cidr_of_cache_set ten_slash_eight class_attributes_def)
  have h2: "\<forall>(net, CIDR) \<in> set (net_to_cidr ?self). \<not> contains net (IPv4Address (v4 8 8 8 8))"
    unfolding idx by (simp add: mask_defs)
  from C6_containment_is_first_match [of ?e class_attributes "''EXAMPLE-NET''" "''Example''"
      "''US''" "''ARIN''" "[]" "mock_world Map.empty"] h1
  have a: "fst (in_cache (IPv4Address (v4 10 1 2 3)) ?self) = Some ''10.0.0.0/8''"
    by blast
  from C6_containment_is_first_match [of ?e ?self _ _ _ _ _ _ "IPv4Address (v4 8 8 8 8)"] h2
  have b: "in_cache (IPv4Address (v4 8 8 8 8)) ?self = (None, ?self)"
    by blast
  from a b show ?thesis by simp
qed

section \<open>The retry loop\<close>

lemma whois_retry_timeouts:
  assumes "\<forall>i<k. lookup_whois e (queries w + i) ip = TimeoutError"
    and "retry_count + k \<le> RETRY_COUNT_MAX"
  shows "whois_retry e ip retry_count w
           = whois_retry e ip (retry_count + k)
               (w\<lparr>queries := queries w + k, slept := slept w @ replicate k TIMEOUT_SLEEP\<rparr>)"
  using assms
proof (induction k arbitrary: retry_count w)
  case 0
  then show ?case by simp
next
  case (Suc k)
  let ?w1 = "sleep TIMEOUT_SLEEP (w\<lparr>queries := Suc (queries w)\<rparr>)"
  from Suc.prems have first: "lookup_whois e (queries w) ip = TimeoutError"
    by (metis add.right_neutral zero_less_Suc)
  from Suc.prems have rest: "\<forall>i<k. lookup_whois e (queries ?w1 + i) ip = TimeoutError"
    by (auto simp add: sleep_def)
  from Suc.prems have bound: "Suc retry_count + k \<le> RETRY_COUNT_MAX"
    by simp
  from Suc.prems have "retry_count < RETRY_COUNT_MAX"
    by simp
  then have "whois_retry e ip retry_count w = whois_retry e ip (Suc retry_count) ?w1"
    by (subst whois_retry.simps) (simp add: first)
  also have "\<dots> = whois_retry e ip (Suc retry_count + k)
      (?w1\<lparr>queries := queries ?w1 + k, slept := slept ?w1 @ replicate k TIMEOUT_SLEEP\<rparr>)"
    by (rule Suc.IH [OF rest bound])
  finally show ?case
    by (simp add: sleep_def replicate_app_Cons_same)
qed

lemma whois_retry_exhausted:
  "whois_retry e ip RETRY_COUNT_MAX w = (RETRY_COUNT_MAX, None, w)"
  by (subst whois_retry.simps) simp

lemma whois_retry_queries:
  "whois_retry e ip retry_count w = (retry_count', response, w') \<Longrightarrow>
   queries w' \<le> queries w + (RETRY_COUNT_MAX - retry_count)"
proof (induction e ip retry_count w rule: whois_retry.induct)
  case (1 e ip retry_count w)
  show ?case
  proof (cases "retry_count < RETRY_COUNT_MAX")
    case False
    with "1.prems" show ?thesis
      by (subst (asm) whois_retry.simps) auto
  next
    case True
    show ?thesis
    proof (cases "lookup_whois e (queries w) ip = TimeoutError")
      case timeout: True
      from "1.prems" True timeout
      have "whois_retry e ip (retry_count + 1) (sleep TIMEOUT_SLEEP (w\<lparr>queries := Suc (queries w)\<rparr>))
              = (retry_count', response, w')"
        by (subst (asm) whois_retry.simps) simp
      from "1.IH" [OF True timeout this] True show ?thesis
        by (simp add: sleep_def)
    next
      case False
      with "1.prems" True show ?thesis
        by (subst (asm) whois_retry.simps) (auto split: whois_result.splits)
    qed
  qed
qed

lemma queries_of_cache_set [simp]:
  "queries (snd (cache_set e network nm descr ctry reg host s)) = queries (snd s)"
  by (cases s) (simp add: cache_set_def read_clock_def Let_def split: option.split)

lemma queries_of_set_subnets [simp]:
  "queries (snd (set_subnets e subnets nm descr ctry reg host s)) = queries (snd s)"
  by (induction subnets arbitrary: s) simp_all

lemma queries_of_save_cache [simp]: "queries (save_cache path self w) = queries w"
  by (simp add: save_cache_def)

lemma queries_of_save_not_found [simp]: "queries (snd (save_not_found s)) = queries (snd s)"
  by (cases s) (simp add: save_not_found_def)

lemma queries_of_rir_lookup:
  "\<not> ipwhois_is_defined e ip \<Longrightarrow>
   queries (snd (snd (rir_lookup e addr ip persist (self, w))))
     = queries (snd (snd (whois_retry e ip 0 w)))"
  by (simp add: rir_lookup_def Let_def case_prod_beta split: option.split sum.split)

lemma single_lookup_miss:
  assumes "check_known_nets e addr = (Some ip, None)" and "fst (in_cache ip self) = None"
  shows "single_lookup e addr persist (self, w) = rir_lookup e addr ip persist (self, w)"
proof -
  from assms(2) have "in_cache ip self = (None, self)"
    by (simp add: in_cache_def)
  with assms(1) show ?thesis
    by (simp add: single_lookup_def)
qed

lemma rir_lookup_failed:
  assumes "whois_retry e ip 0 w = (retry_count, None, w1)" and "\<not> ipwhois_is_defined e ip"
  shows "rir_lookup e addr ip persist (self, w)
           = (Inr failed, self\<lparr>not_found := not_found self @ [addr]\<rparr>, w1)"
  by (simp add: rir_lookup_def assms)

text \<open>
  The retry policy, for a token that is neither well known nor covered by the cache and
  whose address the registry client accepts: \<open>single_lookup\<close> makes at most 3 registry
  queries. When all three attempts time out, it has slept the 10-unit cooldown after each
  of them, appends the token to the unresolved queue and returns the failed outcome. When
  \<open>k < 3\<close> attempts time out and the next one fails with an HTTP, WHOIS or ASN parse error,
  it has made \<open>k + 1\<close> queries and \<open>k\<close> pauses, retries no more, appends the token to the
  queue and returns the failed outcome.
\<close>

lemma retries_bounded_then_failed:
  assumes routable: "check_known_nets e addr = (Some ip, None)"
    and miss: "fst (in_cache ip self) = None"
    and accepted: "\<not> ipwhois_is_defined e ip"
  shows "RETRY_COUNT_MAX = 3 \<and> TIMEOUT_SLEEP = 10
     \<and> queries (snd (snd (single_lookup e addr persist (self, w)))) \<le> queries w + 3
     \<and> ((\<forall>i<3. lookup_whois e (queries w + i) ip = TimeoutError) \<longrightarrow>
          single_lookup e addr persist (self, w)
            = (Inr failed, self\<lparr>not_found := not_found self @ [addr]\<rparr>,
               w\<lparr>queries := queries w + 3, slept := slept w @ replicate 3 TIMEOUT_SLEEP\<rparr>))
     \<and> (\<forall>k<3. (\<forall>i<k. lookup_whois e (queries w + i) ip = TimeoutError)
              \<and> lookup_whois e (queries w + k) ip
                  \<in> {HTTPLookupError, WhoisLookupError, ASNParseError} \<longrightarrow>
          single_lookup e addr persist (self, w)
            = (Inr failed, self\<lparr>not_found := not_found self @ [addr]\<rparr>,
               w\<lparr>queries := queries w + k + 1, slept := slept w @ replicate k TIMEOUT_SLEEP\<rparr>))"
proof (intro conjI impI allI)
  show "RETRY_COUNT_MAX = 3" by (simp add: RETRY_COUNT_MAX_def)
  show "TIMEOUT_SLEEP = 10" by (simp add: TIMEOUT_SLEEP_def)
next
  obtain rc response w1 where loop: "whois_retry e ip 0 w = (rc, response, w1)"
    by (cases "whois_retry e ip 0 w")
  from whois_retry_queries [OF loop] have "queries w1 \<le> queries w + 3"
    by (simp add: RETRY_COUNT_MAX_def)
  then show "queries (snd (snd (single_lookup e addr persist (self, w)))) \<le> queries w + 3"
    by (simp add: single_lookup_miss [OF routable miss] queries_of_rir_lookup [OF accepted] loop)
next
  assume "\<forall>i<3. lookup_whois e (queries w + i) ip = TimeoutError"
  then have "whois_retry e ip 0 w
      = whois_retry e ip (0 + 3)
          (w\<lparr>queries := queries w + 3, slept := slept w @ replicate 3 TIMEOUT_SLEEP\<rparr>)"
    by (intro whois_retry_timeouts) (simp_all add: RETRY_COUNT_MAX_def)
  then have "whois_retry e ip 0 w
      = (RETRY_COUNT_MAX, None,
         w\<lparr>queries := queries w + 3, slept := slept w @ replicate 3 TIMEOUT_SLEEP\<rparr>)"
    using whois_retry_exhausted [of e ip] by (simp add: RETRY_COUNT_MAX_def)
  from rir_lookup_failed [OF this accepted]
  show "single_lookup e addr persist (self, w)
            = (Inr failed, self\<lparr>not_found := not_found self @ [addr]\<rparr>,
               w\<lparr>queries := queries w + 3, slept := slept w @ replicate 3 TIMEOUT_SLEEP\<rparr>)"
    by (simp add: single_lookup_miss [OF routable miss])
next
  fix k :: nat
  assume k: "k < 3"
    and "(\<forall>i<k. lookup_whois e (queries w + i) ip = TimeoutError)
         \<and> lookup_whois e (queries w + k) ip \<in> {HTTPLookupError, WhoisLookupError, ASNParseError}"
  then have timeouts: "\<forall>i<k. lookup_whois e (queries w + i) ip = TimeoutError"
    and final: "lookup_whois e (queries w + k) ip \<in> {HTTPLookupError, WhoisLookupError, ASNParseError}"
    by simp_all
  let ?wk = "w\<lparr>queries := queries w + k, slept := slept w @ replicate k TIMEOUT_SLEEP\<rparr>"
  from timeouts k have "whois_retry e ip 0 w = whois_retry e ip (0 + k) ?wk"
    by (intro whois_retry_timeouts) (simp_all add: RETRY_COUNT_MAX_def)
  also from final k have "whois_retry e ip (0 + k) ?wk = (k, None, ?wk\<lparr>queries := Suc (queries ?wk)\<rparr>)"
    by (subst whois_retry.simps) (auto simp add: RETRY_COUNT_MAX_def)
  finally have "whois_retry e ip 0 w = (k, None, ?wk\<lparr>queries := Suc (queries ?wk)\<rparr>)" .
  from rir_lookup_failed [OF this accepted]
  show "single_lookup e addr persist (self, w)
            = (Inr failed, self\<lparr>not_found := not_found self @ [addr]\<rparr>,
               w\<lparr>queries := queries w + k + 1, slept := slept w @ replicate k TIMEOUT_SLEEP\<rparr>)"
    by (simp add: single_lookup_miss [OF routable miss])
qed

text \<open>
  C7. The claim: for a token that is neither well known nor covered by the cache,
  \<open>single_lookup\<close> makes at most 3 query attempts and, when they fail, queues the token and
  returns the failed outcome without raising. On the code, the token \<open>"192.88.99.1"\<close> passes
  every test of \<open>_check_known_nets\<close> and is in no cached network, and the registry client
  holds its address to be defined: the constructor, called outside the \<open>try\<close>, raises
  \<open>IPDefinedError\<close>, which leaves \<open>single_lookup\<close> with no query made and nothing queued.
\<close>

theorem C7_defined_address_raises:
  "check_known_nets ageing_env ''192.88.99.1'' = (Some (IPv4Address (v4 192 88 99 1)), None)
   \<and> fst (in_cache (IPv4Address (v4 192 88 99 1)) class_attributes) = None
   \<and> single_lookup ageing_env ''192.88.99.1'' True (class_attributes, mock_world Map.empty)
       = (Inl IPDefinedError, class_attributes, mock_world Map.empty)"
proof -
  have c: "check_known_nets e ''192.88.99.1'' = (Some (IPv4Address (v4 192 88 99 1)), None)" for e
    by (simp add: check_known_nets_def parse_defs mask_defs)
  have m: "fst (in_cache (IPv4Address (v4 192 88 99 1)) class_attributes) = None"
    by (simp add: in_cache_def class_attributes_def)
  have d: "ipwhois_is_defined ageing_env (IPv4Address (v4 192 88 99 1))"
    by (simp add: ageing_env_def mask_defs)
  have "single_lookup ageing_env ''192.88.99.1'' True (class_attributes, mock_world Map.empty)
       = (Inl IPDefinedError, class_attributes, mock_world Map.empty)"
    using d
    by (simp add: single_lookup_miss [OF c m] rir_lookup_def)
  with c m show ?thesis
    by simp
qed

section \<open>Blocks that are not cached\<close>

lemma rdns_fqdn_total:
  "length (split (CHR ''/'') addr) = 1 \<or> py_int e (split (CHR ''/'') addr ! 1) \<noteq> None
   \<Longrightarrow> \<exists>host. rdns_fqdn e addr = Some host"
  by (auto simp add: rdns_fqdn_def Let_def)

text \<open>
  For a token that is neither well known nor covered by the cache and whose address the
  registry client accepts, when a registry query succeeds (after fewer than 3 timeouts)
  and the name of the resolved block is in \<open>ReservedNetNames\<close>: the cache object after
  \<open>single_lookup\<close> is the one before it, no cache file is written even when \<open>persist\<close> is
  set, and the outcome is looked-up with the assembled record whenever the reverse DNS
  block returns, which it does for a token without \<open>/\<close> suffix or with one that \<open>int\<close> reads.
\<close>

lemma reserved_name_writes_nothing:
  assumes routable: "check_known_nets e addr = (Some ip, None)"
    and miss: "fst (in_cache ip self) = None"
    and accepted: "\<not> ipwhois_is_defined e ip"
    and timeouts: "\<forall>i<k. lookup_whois e (queries w + i) ip = TimeoutError"
    and few: "k < 3"
    and answer: "lookup_whois e (queries w + k) ip = Response response"
    and block: "build_description response = (net_cidr, net_name, net_description, net_country)"
    and reserved: "net_name \<in> set ReservedNetNames"
  shows "fst (snd (single_lookup e addr persist (self, w))) = self
     \<and> cache_files (snd (snd (single_lookup e addr persist (self, w)))) = cache_files w
     \<and> (\<forall>host. rdns_fqdn e addr = Some host \<longrightarrow>
          fst (single_lookup e addr persist (self, w))
            = Inr (lookedUp
                \<lparr>address = addr, description = net_description, name = net_name,
                 cidr = net_cidr, country = net_country,
                 registry = newline_to_space (str (asn_registry response)), fqdn = host\<rparr>))
     \<and> (length (split (CHR ''/'') addr) = 1 \<or> py_int e (split (CHR ''/'') addr ! 1) \<noteq> None
          \<longrightarrow> (\<exists>host. rdns_fqdn e addr = Some host))"
proof -
  let ?wk = "w\<lparr>queries := queries w + k, slept := slept w @ replicate k TIMEOUT_SLEEP\<rparr>"
  from timeouts few have "whois_retry e ip 0 w = whois_retry e ip (0 + k) ?wk"
    by (intro whois_retry_timeouts) (simp_all add: RETRY_COUNT_MAX_def)
  also from answer few
  have "whois_retry e ip (0 + k) ?wk = (k, Some response, ?wk\<lparr>queries := Suc (queries ?wk)\<rparr>)"
    by (subst whois_retry.simps) (simp add: RETRY_COUNT_MAX_def)
  finally have loop: "whois_retry e ip 0 w = (k, Some response, ?wk\<lparr>queries := Suc (queries ?wk)\<rparr>)" .
  have single: "single_lookup e addr persist (self, w) = rir_lookup e addr ip persist (self, w)"
    by (rule single_lookup_miss [OF routable miss])
  from few have k: "k \<noteq> RETRY_COUNT_MAX"
    by (simp add: RETRY_COUNT_MAX_def)
  show ?thesis
    using reserved k accepted rdns_fqdn_total [of addr e]
    by (auto simp add: single rir_lookup_def loop block Let_def split: option.split)
qed

text \<open>
  C8. The claim: when a successful registry query yields a block whose name is in
  \<open>ReservedNetNames\<close>, \<open>single_lookup\<close> returns the looked-up outcome with the assembled
  record, and the cache is as before. On the code, for the token \<open>"8.8.8.8/abc"\<close> on an
  empty cache, with a registry that answers the query with the block \<open>IANA-BLK\<close>, the
  query succeeds and then \<open>int("abc")\<close> raises \<open>ValueError\<close> before the record is assembled:
  \<open>single_lookup\<close> raises instead of returning. The cache is untouched, as the claim says.
  The defect is the one of C2.
\<close>

theorem C8_reserved_name_with_malformed_suffix_raises:
  "build_description iana_response = (''8.0.0.0/8'', ''IANA-BLK'', ''Delegated block'', ''US'')
   \<and> ''IANA-BLK'' \<in> set ReservedNetNames
   \<and> single_lookup iana_env ''8.8.8.8/abc'' True (class_attributes, mock_world Map.empty)
       = (Inl ValueError, class_attributes, (mock_world Map.empty)\<lparr>queries := Suc 0\<rparr>)"
proof -
  have b: "build_description iana_response
             = (''8.0.0.0/8'', ''IANA-BLK'', ''Delegated block'', ''US'')"
    by (simp add: build_description_def iana_response_def str_def newline_to_space_def
        replace_def NL_def)
  have n: "''IANA-BLK'' \<in> set ReservedNetNames"
    by (simp add: ReservedNetNames_def)
  have c: "check_known_nets e ''8.8.8.8/abc'' = (Some (IPv4Address (v4 8 8 8 8)), None)" for e
    by (simp add: check_known_nets_def parse_defs mask_defs)
  have m: "fst (in_cache (IPv4Address (v4 8 8 8 8)) class_attributes) = None"
    by (simp add: in_cache_def class_attributes_def)
  have d: "\<not> ipwhois_is_defined iana_env (IPv4Address (v4 8 8 8 8))"
    by (simp add: iana_env_def mask_defs)
  have q: "lookup_whois iana_env (queries (mock_world Map.empty)) (IPv4Address (v4 8 8 8 8))
             = Response iana_response"
    by (simp add: iana_env_def)
  have r: "rdns_fqdn e ''8.8.8.8/abc'' = None" for e
    by (simp add: rdns_fqdn_def int_defs)
  have "single_lookup iana_env ''8.8.8.8/abc'' True (class_attributes, mock_world Map.empty)
       = (Inl ValueError, class_attributes, (mock_world Map.empty)\<lparr>queries := Suc 0\<rparr>)"
    using d
    by (simp add: single_lookup_miss [OF c m] rir_lookup_def whois_retry_response [OF q]
        RETRY_COUNT_MAX_def r Let_def case_prod_beta)
  with b n show ?thesis
    by simp
qed

section \<open>The unresolved queue of a batch\<close>

lemma not_found_file_of_cache_set [simp]:
  "not_found_file (snd (cache_set e network nm descr ctry reg host s)) = not_found_file (snd s)"
  by (cases s) (simp add: cache_set_def read_clock_def Let_def split: option.split)

lemma not_found_file_of_set_subnets [simp]:
  "not_found_file (snd (set_subnets e subnets nm descr ctry reg host s)) = not_found_file (snd s)"
  by (induction subnets arbitrary: s) simp_all

lemma not_found_of_set_subnets [simp]:
  "not_found (fst (set_subnets e subnets nm descr ctry reg host s)) = not_found (fst s)"
proof (induction subnets arbitrary: s)
  case Nil
  then show ?case by simp
next
  case (Cons net subnets)
  obtain self w where s: "s = (self, w)" by (cases s)
  from Cons.IH [of "cache_set e net nm descr ctry reg host s"] show ?case
    by (simp add: s not_found_of_cache_set)
qed

lemma not_found_file_of_whois_retry:
  "not_found_file (snd (snd (whois_retry e ip retry_count w))) = not_found_file w"
proof (induction e ip retry_count w rule: whois_retry.induct)
  case (1 e ip retry_count w)
  show ?case
  proof (cases "retry_count < RETRY_COUNT_MAX \<and> lookup_whois e (queries w) ip = TimeoutError")
    case True
    with "1.IH" show ?thesis
      by (subst whois_retry.simps) (simp add: sleep_def)
  next
    case False
    then show ?thesis
      by (subst whois_retry.simps) (auto split: whois_result.splits)
  qed
qed

lemma set_subnets_frame:
  assumes "set_subnets e subnets nm descr ctry reg host (self, w) = (self', w')"
  shows "not_found_file w' = not_found_file w \<and> not_found self' = not_found self"
  using not_found_file_of_set_subnets [of e subnets nm descr ctry reg host "(self, w)"]
    not_found_of_set_subnets [of e subnets nm descr ctry reg host "(self, w)"]
  by (simp add: assms)

lemma rir_lookup_queue:
  assumes "rir_lookup e addr ip False (self, w)
             = (Inr (known_net, cached, error, resolved_net), c, w1)"
  shows "not_found_file w1 = not_found_file w \<and> \<not> known_net \<and> \<not> cached
         \<and> not_found c = (if error then not_found self @ [addr] else not_found self)"
proof -
  obtain rc response w0 where loop: "whois_retry e ip 0 w = (rc, response, w0)"
    by (cases "whois_retry e ip 0 w")
  from not_found_file_of_whois_retry [of e ip 0 w] have w0: "not_found_file w0 = not_found_file w"
    by (simp add: loop)
  from assms w0 show ?thesis
    by (auto simp add: rir_lookup_def loop Let_def case_prod_beta failed_def lookedUp_def
        split: if_splits option.splits sum.splits dest: set_subnets_frame)
qed

lemma single_lookup_queue:
  assumes "single_lookup e addr False (self, w)
             = (Inr (known_net, cached, error, resolved_net), c, w1)"
  shows "not_found_file w1 = not_found_file w
         \<and> (error \<longrightarrow> \<not> known_net \<and> \<not> cached \<and> snd (check_known_nets e addr) = None)
         \<and> not_found c = (if error then not_found self @ [addr] else not_found self)"
proof (cases "check_known_nets e addr")
  case (Pair ip known)
  show ?thesis
  proof (cases known)
    case (Some resolved)
    with assms Pair show ?thesis
      by (auto simp add: single_lookup_def wellKnown_def split: option.splits)
  next
    case None
    show ?thesis
    proof (cases ip)
      case no_ip: None
      with assms Pair None show ?thesis
        by (simp add: single_lookup_def)
    next
      case (Some host)
      show ?thesis
      proof (cases "\<exists>net. first_match (net_to_cidr self) host = Some net \<and> net \<noteq> []")
        case True
        with assms Pair None Some show ?thesis
          by (auto simp add: single_lookup_def in_cache_def cacheHit_def split: sum.splits)
      next
        case False
        with assms Pair None Some
        have "rir_lookup e addr host False (self, w)
                = (Inr (known_net, cached, error, resolved_net), c, w1)"
          by (auto simp add: single_lookup_def in_cache_def split: option.splits if_splits)
        from rir_lookup_queue [OF this] Pair None show ?thesis
          by simp
      qed
    qed
  qed
qed

lemma search_loop_queue:
  "search_loop e tokens counters (self, w) = (Inr counters', self', w') \<Longrightarrow>
   \<exists>xs. subseq xs tokens
     \<and> not_found (ncache self') = not_found (ncache self) @ twice xs
     \<and> not_found_file w' = not_found_file w
     \<and> length xs + length (resolved_ip_list self') = length tokens + length (resolved_ip_list self)
     \<and> (\<forall>a \<in> set xs. snd (check_known_nets e a) = None)"
proof (induction tokens arbitrary: counters self w)
  case Nil
  then show ?case
    by (intro exI [of _ "[]"]) (simp add: twice_def)
next
  case (Cons addr tokens)
  obtain cache_hits lookups where counters: "counters = (cache_hits, lookups)"
    by (cases counters)
  obtain result c w1 where sl: "single_lookup e addr False (ncache self, w) = (result, c, w1)"
    by (cases "single_lookup e addr False (ncache self, w)")
  from Cons.prems obtain known_net cached error resolved_net where
    result: "result = Inr (known_net, cached, error, resolved_net)"
    by (cases result) (auto simp add: counters sl)
  from single_lookup_queue [OF sl [unfolded result]] have
    log: "not_found_file w1 = not_found_file w"
    and flags: "error \<longrightarrow> \<not> known_net \<and> \<not> cached \<and> snd (check_known_nets e addr) = None"
    and queue: "not_found c = (if error then not_found (ncache self) @ [addr] else not_found (ncache self))"
    by simp_all
  show ?case
  proof (cases error)
    case True
    with flags have "\<not> known_net" "\<not> cached" and open_token: "snd (check_known_nets e addr) = None"
      by simp_all
    with Cons.prems True have "search_loop e tokens (cache_hits, lookups + 1)
        (self\<lparr>ncache := c\<lparr>not_found := not_found c @ [addr]\<rparr>\<rparr>, w1) = (Inr counters', self', w')"
      by (simp add: counters sl result)
    from Cons.IH [OF this] obtain xs where xs: "subseq xs tokens"
      "not_found (ncache self') = (not_found c @ [addr]) @ twice xs"
      "not_found_file w' = not_found_file w1"
      "length xs + length (resolved_ip_list self') = length tokens + length (resolved_ip_list self)"
      "\<forall>a \<in> set xs. snd (check_known_nets e a) = None"
      by auto
    with True queue log open_token show ?thesis
      by (intro exI [of _ "addr # xs"]) (simp add: twice_def)
  next
    case False
    let ?self = "self\<lparr>ncache := c, resolved_ip_list := resolved_ip_list self @ [resolved_net]\<rparr>"
    from Cons.prems False obtain counters2 w2 where
      rest: "search_loop e tokens counters2 (?self, w2) = (Inr counters', self', w')"
      and w2: "not_found_file w2 = not_found_file w1"
      by (cases known_net; cases cached)
        (auto simp add: counters sl result Let_def sleep_def save_cache_def)
    from Cons.IH [OF rest] obtain xs where xs: "subseq xs tokens"
      "not_found (ncache self') = not_found c @ twice xs"
      "not_found_file w' = not_found_file w2"
      "length xs + length (resolved_ip_list self') = length tokens + length (resolved_ip_list ?self)"
      "\<forall>a \<in> set xs. snd (check_known_nets e a) = None"
      by auto
    with False queue log w2 show ?thesis
      by (intro exI [of _ xs]) (simp add: list_emb_Cons)
  qed
qed

text \<open>
  C10. When \<open>single_lookup\<close> returns the error flag for a token of the batch, it has appended
  the token to the unresolved queue, and the iteration of \<open>search_list\<close> appends it once
  more: the loop goes on with a queue that ends in the token two times. When \<open>search_list\<close>
  returns, the one flush at its end has appended to the not-found log the queue as it was
  before the batch, followed by some of the batch's tokens in order, each two times in a
  row, joined by newlines; the queue is empty afterwards, each token of the batch either
  is one of those or has a record in the result list, and none of those is a well-known
  token.
\<close>

theorem C10_failed_token_is_queued_twice:
  "(fst (single_lookup e addr False (ncache self, w)) = Inr (known_net, cached, True, resolved_net)
      \<longrightarrow> not_found (fst (snd (single_lookup e addr False (ncache self, w))))
            = not_found (ncache self) @ [addr]
          \<and> search_loop e (addr # ip_list) (cache_hits, lookups) (self, w)
            = search_loop e ip_list (cache_hits, lookups + 1)
                (self\<lparr>ncache := (fst (snd (single_lookup e addr False (ncache self, w))))
                    \<lparr>not_found := not_found (ncache self) @ [addr, addr]\<rparr>\<rparr>,
                 snd (snd (single_lookup e addr False (ncache self, w)))))
   \<and> (fst (search_list e (self, w)) = Inr counters
      \<longrightarrow> (\<exists>xs. subseq xs (raw_ip_list self)
            \<and> not_found_file (snd (snd (search_list e (self, w))))
                = not_found_file w @ join [NL] (not_found (ncache self) @ twice xs)
            \<and> not_found (ncache (fst (snd (search_list e (self, w))))) = []
            \<and> length xs + length (resolved_ip_list (fst (snd (search_list e (self, w)))))
                = length (raw_ip_list self) + length (resolved_ip_list self)
            \<and> (\<forall>a \<in> set xs. snd (check_known_nets e a) = None)))"
proof (intro conjI impI)
  assume err: "fst (single_lookup e addr False (ncache self, w))
                 = Inr (known_net, cached, True, resolved_net)"
  obtain c w1 where sl: "single_lookup e addr False (ncache self, w)
      = (Inr (known_net, cached, True, resolved_net), c, w1)"
    using err by (cases "single_lookup e addr False (ncache self, w)") auto
  from single_lookup_queue [OF sl] have flags: "\<not> known_net" "\<not> cached"
    and queue: "not_found c = not_found (ncache self) @ [addr]"
    by simp_all
  show "not_found (fst (snd (single_lookup e addr False (ncache self, w))))
            = not_found (ncache self) @ [addr]"
    by (simp add: sl queue)
  show "search_loop e (addr # ip_list) (cache_hits, lookups) (self, w)
            = search_loop e ip_list (cache_hits, lookups + 1)
                (self\<lparr>ncache := (fst (snd (single_lookup e addr False (ncache self, w))))
                    \<lparr>not_found := not_found (ncache self) @ [addr, addr]\<rparr>\<rparr>,
                 snd (snd (single_lookup e addr False (ncache self, w))))"
    using flags by (simp add: sl queue)
next
  assume ok: "fst (search_list e (self, w)) = Inr counters"
  obtain result self1 w1 where loop: "search_loop e (raw_ip_list self) (0, 0) (self, w)
      = (result, self1, w1)"
    by (cases "search_loop e (raw_ip_list self) (0, 0) (self, w)")
  from ok have result: "result = Inr counters"
    by (cases result) (auto simp add: search_list_def loop Let_def case_prod_beta)
  from search_loop_queue [OF loop [unfolded result]] obtain xs where xs: "subseq xs (raw_ip_list self)"
    "not_found (ncache self1) = not_found (ncache self) @ twice xs"
    "not_found_file w1 = not_found_file w"
    "length xs + length (resolved_ip_list self1)
       = length (raw_ip_list self) + length (resolved_ip_list self)"
    "\<forall>a \<in> set xs. snd (check_known_nets e a) = None"
    by auto
  show "\<exists>xs. subseq xs (raw_ip_list self)
            \<and> not_found_file (snd (snd (search_list e (self, w))))
                = not_found_file w @ join [NL] (not_found (ncache self) @ twice xs)
            \<and> not_found (ncache (fst (snd (search_list e (self, w))))) = []
            \<and> length xs + length (resolved_ip_list (fst (snd (search_list e (self, w)))))
                = length (raw_ip_list self) + length (resolved_ip_list self)
            \<and> (\<forall>a \<in> set xs. snd (check_known_nets e a) = None)"
    using xs
    by (intro exI [of _ xs])
      (auto simp add: search_list_def loop result Let_def save_not_found_def save_cache_def)
qed

lemma all_timeouts_failed:
  assumes "check_known_nets e addr = (Some ip, None)"
    and "fst (in_cache ip self) = None"
    and "\<forall>i<3. lookup_whois e (queries w + i) ip = TimeoutError"
    and "\<not> ipwhois_is_defined e ip"
  shows "single_lookup e addr persist (self, w)
           = (Inr failed, self\<lparr>not_found := not_found self @ [addr]\<rparr>,
              w\<lparr>queries := queries w + 3, slept := slept w @ replicate 3 TIMEOUT_SLEEP\<rparr>)"
proof -
  from assms(3) have "whois_retry e ip 0 w
      = whois_retry e ip (0 + 3)
          (w\<lparr>queries := queries w + 3, slept := slept w @ replicate 3 TIMEOUT_SLEEP\<rparr>)"
    by (intro whois_retry_timeouts) (simp_all add: RETRY_COUNT_MAX_def)
  then have "whois_retry e ip 0 w
      = (RETRY_COUNT_MAX, None,
         w\<lparr>queries := queries w + 3, slept := slept w @ replicate 3 TIMEOUT_SLEEP\<rparr>)"
    using whois_retry_exhausted [of e ip] by (simp add: RETRY_COUNT_MAX_def)
  from rir_lookup_failed [OF this assms(4)] show ?thesis
    by (simp add: single_lookup_miss [OF assms(1) assms(2)])
qed

text \<open>
  C10, witness: the batch \<open>["8.8.8.5"]\<close> with a registry that always times out; the log gets
  the token on two lines.
\<close>

theorem C10_queued_twice_witness:
  "not_found (fst (snd (single_lookup ageing_env ''8.8.8.5'' False
      (class_attributes, mock_world Map.empty)))) = [''8.8.8.5'']
   \<and> search_loop ageing_env [''8.8.8.5''] (0, 0)
        (batch_searcher [''8.8.8.5''], mock_world Map.empty)
       = (Inr (0, 1),
          (batch_searcher [''8.8.8.5''])
            \<lparr>ncache := class_attributes\<lparr>not_found := [''8.8.8.5'', ''8.8.8.5'']\<rparr>\<rparr>,
          (mock_world Map.empty)\<lparr>queries := 3, slept := [10, 10, 10]\<rparr>)
   \<and> not_found_file (snd (snd (search_list ageing_env
        (batch_searcher [''8.8.8.5''], mock_world Map.empty))))
       = ''8.8.8.5'' @ [NL] @ ''8.8.8.5''"
proof -
  let ?w = "mock_world Map.empty"
  let ?self = "batch_searcher [''8.8.8.5'']"
  have h1: "check_known_nets ageing_env ''8.8.8.5'' = (Some (IPv4Address (v4 8 8 8 5)), None)"
    by (simp add: check_known_nets_def parse_defs mask_defs)
  have h2: "fst (in_cache (IPv4Address (v4 8 8 8 5)) class_attributes) = None"
    by (simp add: in_cache_def class_attributes_def)
  have h3: "\<forall>i<3. lookup_whois ageing_env (queries ?w + i) (IPv4Address (v4 8 8 8 5)) = TimeoutError"
    by (simp add: ageing_env_def)
  have h4: "\<not> ipwhois_is_defined ageing_env (IPv4Address (v4 8 8 8 5))"
    by (simp add: ageing_env_def mask_defs)
  have nc: "ncache ?self = class_attributes"
    by (simp add: batch_searcher_def)
  have raw: "raw_ip_list ?self = [''8.8.8.5'']"
    by (simp add: batch_searcher_def)
  have sl: "single_lookup ageing_env ''8.8.8.5'' False (ncache ?self, ?w)
      = (Inr (False, False, True, None), class_attributes\<lparr>not_found := [''8.8.8.5'']\<rparr>,
         ?w\<lparr>queries := 3, slept := [10, 10, 10]\<rparr>)"
    unfolding nc all_timeouts_failed [OF h1 h2 h3 h4]
    by (simp add: failed_def class_attributes_def TIMEOUT_SLEEP_def numeral_3_eq_3)
  then have err: "fst (single_lookup ageing_env ''8.8.8.5'' False (ncache ?self, ?w))
      = Inr (False, False, True, None)"
    by simp
  from C10_failed_token_is_queued_twice [of ageing_env "''8.8.8.5''" ?self ?w False False None
      "[]" 0 0] err
  have step: "not_found (fst (snd (single_lookup ageing_env ''8.8.8.5'' False (ncache ?self, ?w))))
            = not_found (ncache ?self) @ [''8.8.8.5'']
          \<and> search_loop ageing_env [''8.8.8.5''] (0, 0) (?self, ?w)
            = search_loop ageing_env [] (0, 0 + 1)
                (?self\<lparr>ncache := (fst (snd (single_lookup ageing_env ''8.8.8.5'' False (ncache ?self, ?w))))
                    \<lparr>not_found := not_found (ncache ?self) @ [''8.8.8.5'', ''8.8.8.5'']\<rparr>\<rparr>,
                 snd (snd (single_lookup ageing_env ''8.8.8.5'' False (ncache ?self, ?w))))"
    by blast
  have loop: "search_loop ageing_env [''8.8.8.5''] (0, 0) (?self, ?w)
       = (Inr (0, 1), ?self\<lparr>ncache := class_attributes\<lparr>not_found := [''8.8.8.5'', ''8.8.8.5'']\<rparr>\<rparr>,
          ?w\<lparr>queries := 3, slept := [10, 10, 10]\<rparr>)"
    using step unfolding sl by (simp add: nc class_attributes_def)
  have flush: "not_found_file (snd (snd (search_list ageing_env (?self, ?w))))
       = ''8.8.8.5'' @ [NL] @ ''8.8.8.5''"
    unfolding search_list_def fst_conv raw loop
    by (simp add: Let_def save_not_found_def batch_searcher_def class_attributes_def)
  from step [unfolded sl] have "not_found (fst (snd (single_lookup ageing_env ''8.8.8.5'' False
      (class_attributes, ?w)))) = [''8.8.8.5'']"
    unfolding sl [unfolded nc] by (simp add: class_attributes_def)
  with loop flush show ?thesis
    by simp
qed

end
